theory Spec2Isabelle
  imports Complex_Main
begin

section \<open>Numbers, outcomes and the Python operations the service uses\<close>

text \<open>
  The service (\<^verbatim>\<open>app/services/ensemble_service.py\<close>) computes with Python and numpy
  floats. They are modelled as reals: no rounding error and no overflow. A float operation
  that leaves the reals (a numpy division by zero gives \<open>inf\<close> or \<open>nan\<close> and a warning,
  not an exception) is the outcome \<open>FloatSpecial\<close>: the call did not raise, and what it
  computes from there on is not followed. A Python exception is the outcome \<open>Raises\<close>.
\<close>

datatype py_error =
  AttributeError | TypeError | KeyError | IndexError | LinAlgError | ZeroDivisionError

datatype 'a outcome = Returns 'a | Raises py_error | FloatSpecial

definition bind_outcome :: "'a outcome \<Rightarrow> ('a \<Rightarrow> 'b outcome) \<Rightarrow> 'b outcome" where
  "bind_outcome m f = (case m of Returns x \<Rightarrow> f x | Raises e \<Rightarrow> Raises e | FloatSpecial \<Rightarrow> FloatSpecial)"

text \<open>
  \<^verbatim>\<open>try: <body, which assigns the result last> except Exception as e: logger.error(..)\<close>
  followed by \<^verbatim>\<open>return result\<close>: an exception of the body leaves the default in place.
\<close>

definition try_except :: "'a outcome \<Rightarrow> 'a \<Rightarrow> 'a outcome" where
  "try_except body dflt =
     (case body of Returns r \<Rightarrow> Returns r | Raises e \<Rightarrow> Returns dflt | FloatSpecial \<Rightarrow> FloatSpecial)"

text \<open>
  Python's \<^verbatim>\<open>round(x, n)\<close>, and numpy's for a numpy float: to the nearest multiple of
  \<open>10\<^sup>-\<^sup>n\<close>, a tie to the even one.
\<close>

definition py_round_int :: "real \<Rightarrow> int" where
  "py_round_int x =
     (let f = \<lfloor>x\<rfloor>; d = x - of_int f
      in if d < 1/2 then f else if d > 1/2 then f + 1 else if even f then f else f + 1)"

definition py_round :: "real \<Rightarrow> nat \<Rightarrow> real" where
  "py_round x n = of_int (py_round_int (x * 10 ^ n)) / 10 ^ n"

text \<open>\<^verbatim>\<open>str.upper()\<close> on the ASCII letters; every other character is kept.\<close>

definition upper_char :: "char \<Rightarrow> char" where
  "upper_char c =
     (if (97::nat) \<le> of_char c \<and> of_char c \<le> (122::nat)
      then (case c of Char b0 b1 b2 b3 b4 b5 b6 b7 \<Rightarrow> Char b0 b1 b2 b3 b4 False b6 b7)
      else c)"

definition upper :: "string \<Rightarrow> string" where
  "upper s = map upper_char s"

subsection \<open>Values decoded from JSON\<close>

text \<open>
  The sentiment payload is whatever \<^verbatim>\<open>response.json()\<close> of the prediction endpoint
  decodes to. A dict is an association list with distinct keys; ints and floats are one
  constructor.
\<close>

datatype json =
  JNull | JBool bool | JNum real | JStr string | JArr "json list" | JObj "(string \<times> json) list"

fun truthy :: "json \<Rightarrow> bool" where
  "truthy JNull = False"
| "truthy (JBool b) = b"
| "truthy (JNum x) = (x \<noteq> 0)"
| "truthy (JStr s) = (s \<noteq> [])"
| "truthy (JArr xs) = (xs \<noteq> [])"
| "truthy (JObj kvs) = (kvs \<noteq> [])"

text \<open>\<^verbatim>\<open>d.get(key, default)\<close>; only a dict has the method.\<close>

fun dict_get :: "json \<Rightarrow> string \<Rightarrow> json \<Rightarrow> json outcome" where
  "dict_get (JObj kvs) k dflt = Returns (case map_of kvs k of Some v \<Rightarrow> v | None \<Rightarrow> dflt)"
| "dict_get _ k dflt = Raises AttributeError"

text \<open>The value of a JSON number in arithmetic; \<^verbatim>\<open>True\<close> is 1 and \<^verbatim>\<open>False\<close> is 0.\<close>

fun as_number :: "json \<Rightarrow> real outcome" where
  "as_number (JNum x) = Returns x"
| "as_number (JBool b) = Returns (if b then 1 else 0)"
| "as_number _ = Raises TypeError"

section \<open>Sentiment agent\<close>

record sentiment_result =
  consensus_score :: real
  sentiment_multiplier :: real
  sentiment_label :: string
  bull_bear_ratio :: real
  sentiment_confidence :: real

definition sentiment_default :: sentiment_result where
  "sentiment_default =
     \<lparr> consensus_score = 0.0, sentiment_multiplier = 1.0, sentiment_label = ''Neutral'',
       bull_bear_ratio = 0.5, sentiment_confidence = 50.0 \<rparr>"

text \<open>Line 363: \<^verbatim>\<open>max(0.9, min(1.1, multiplier))\<close>\<close>

definition clamp_multiplier :: "real \<Rightarrow> real" where
  "clamp_multiplier multiplier = max 0.9 (min 1.1 multiplier)"

text \<open>The body of the \<^verbatim>\<open>try\<close> block of \<^verbatim>\<open>get_sentiment_multiplier\<close>.\<close>

definition sentiment_body :: "json \<Rightarrow> sentiment_result outcome" where
  "sentiment_body sentiment_data =
     bind_outcome (dict_get sentiment_data ''news'' (JObj [])) (\<lambda>news1.
     bind_outcome (dict_get news1 ''sentimentDirection'' (JStr ''NEUTRAL'')) (\<lambda>news_direction.
     bind_outcome (dict_get sentiment_data ''news'' (JObj [])) (\<lambda>news2.
     bind_outcome (dict_get news2 ''confidence'' (JNum 50)) (\<lambda>news_confidence.
       let (base_multiplier, consensus, label) =
             (if news_direction = JStr ''UP'' then (1.05 :: real, 0.5 :: real, ''Bullish'')
              else if news_direction = JStr ''DOWN'' then (0.95, - 0.5, ''Bearish'')
              else (1.0, 0.0, ''Neutral''))
       in bind_outcome (as_number news_confidence) (\<lambda>conf.
            let confidence_factor = conf / 100;
                multiplier =
                  (if base_multiplier > 1
                   then 1 + (0.1 * confidence_factor * (base_multiplier - 1) / 0.05)
                   else if base_multiplier < 1
                   then 1 - (0.1 * confidence_factor * (1 - base_multiplier) / 0.05)
                   else 1.0);
                multiplier = clamp_multiplier multiplier
            in Returns
                 \<lparr> consensus_score = py_round consensus 2,
                   sentiment_multiplier = py_round multiplier 4,
                   sentiment_label = label,
                   bull_bear_ratio = py_round (0.5 + consensus * 0.5) 2,
                   sentiment_confidence = conf \<rparr>)))))"

text \<open>
  \<^verbatim>\<open>get_sentiment_multiplier(sentiment_data)\<close>; \<open>None\<close> is Python's \<^verbatim>\<open>None\<close>.
\<close>

definition get_sentiment_multiplier :: "json option \<Rightarrow> sentiment_result outcome" where
  "get_sentiment_multiplier sentiment_data =
     (case sentiment_data of
        None \<Rightarrow> Returns sentiment_default
      | Some sd \<Rightarrow>
          if truthy sd then try_except (sentiment_body sd) sentiment_default
          else Returns sentiment_default)"

section \<open>Quant agent\<close>

text \<open>
  \<^verbatim>\<open>market_data\<close> is the table read from \<^verbatim>\<open>market_data.csv\<close> (\<open>None\<close> when the file is
  missing): a column per name. A numeric column holds floats, a missing cell being \<open>None\<close>
  (pandas' NaN); a column that did not parse as numbers holds strings.
\<close>

datatype column = NumCol "real option list" | ObjCol "string option list"

type_synonym data_frame = "string \<rightharpoonup> column"

fun dropna :: "'a option list \<Rightarrow> 'a list" where
  "dropna [] = []"
| "dropna (None # xs) = dropna xs"
| "dropna (Some x # xs) = x # dropna xs"

record forecast =
  base_price :: real
  predicted_price :: real
  direction :: string
  confidence :: real
  volatility :: real
  trend_strength :: real
  method_tag :: string

definition forecast_fallback :: "real \<Rightarrow> forecast" where
  "forecast_fallback current_price =
     \<lparr> base_price = current_price, predicted_price = current_price * 1.02,
       direction = ''UP'', confidence = 65.0, volatility = 0.02, trend_strength = 0.5,
       method_tag = ''fallback'' \<rparr>"

text \<open>\<^verbatim>\<open>np.diff\<close>, \<^verbatim>\<open>np.mean\<close>, \<^verbatim>\<open>np.std\<close> (population form), \<^verbatim>\<open>a[-n:]\<close>.\<close>

definition np_diff :: "real list \<Rightarrow> real list" where
  "np_diff xs = map (\<lambda>(a, b). b - a) (zip (butlast xs) (tl xs))"

definition np_mean :: "real list \<Rightarrow> real" where
  "np_mean xs = sum_list xs / real (length xs)"

definition np_std :: "real list \<Rightarrow> real" where
  "np_std xs = sqrt (np_mean (map (\<lambda>x. (x - np_mean xs)\<^sup>2) xs))"

definition last_n :: "nat \<Rightarrow> 'a list \<Rightarrow> 'a list" where
  "last_n n xs = drop (length xs - n) xs"

text \<open>Division of numpy floats: a zero divisor gives \<open>inf\<close> or \<open>nan\<close>, no exception.\<close>

definition np_div :: "real \<Rightarrow> real \<Rightarrow> real outcome" where
  "np_div a b = (if b = 0 then FloatSpecial else Returns (a / b))"

definition np_div_list :: "real list \<Rightarrow> real list \<Rightarrow> real list outcome" where
  "np_div_list xs ys =
     (if 0 \<in> set ys then FloatSpecial else Returns (map (\<lambda>(a, b). a / b) (zip xs ys)))"

text \<open>Lines 94 to 120: the forecast built from the indicators.\<close>

definition forecast_of_indicators :: "real \<Rightarrow> real \<Rightarrow> real \<Rightarrow> real \<Rightarrow> forecast" where
  "forecast_of_indicators current_price vol trend momentum =
     (let (dir, price_change) =
            (if trend > 0.01 \<and> momentum > 0
             then (''UP'', \<bar>trend\<bar> * (1 + momentum))
             else if trend < - 0.01 \<and> momentum < 0
             then (''DOWN'', - \<bar>trend\<bar> * (1 + \<bar>momentum\<bar>))
             else (''SIDEWAYS'', trend * 0.5));
          predicted = current_price * (1 + price_change);
          strength = min (\<bar>trend\<bar> * 100) 1.0;
          conf = 50 + (strength * 40)
      in \<lparr> base_price = current_price,
           predicted_price = py_round predicted 2,
           direction = dir,
           confidence = py_round conf 1,
           volatility = py_round (vol * 100) 2,
           trend_strength = py_round strength 2,
           method_tag = ''lstm_technical'' \<rparr>)"

text \<open>Lines 81 to 92: the indicators.\<close>

definition technical_forecast :: "real list \<Rightarrow> real \<Rightarrow> forecast outcome" where
  "technical_forecast prices current_price =
     bind_outcome (np_div_list (np_diff prices) (butlast prices)) (\<lambda>returns.
       let vol = np_std returns;
           sma_20 = np_mean (last_n 20 prices);
           sma_5 = np_mean (last_n 5 prices);
           current = last prices
       in bind_outcome (np_div (sma_5 - sma_20) sma_20) (\<lambda>trend.
          bind_outcome (np_div (current - sma_5) sma_5) (\<lambda>momentum.
            Returns (forecast_of_indicators current_price vol trend momentum))))"

text \<open>
  The body of the \<^verbatim>\<open>try\<close> block of \<^verbatim>\<open>get_base_forecast\<close>, giving the final value of
  \<^verbatim>\<open>forecast\<close>. Subtracting two strings (\<^verbatim>\<open>np.diff\<close> on an object column) raises.
\<close>

definition forecast_body :: "column \<Rightarrow> real \<Rightarrow> forecast outcome" where
  "forecast_body col current_price =
     (case col of
        NumCol cells \<Rightarrow>
          (let prices = dropna cells
           in if length prices \<ge> 20 then technical_forecast prices current_price
              else Returns (forecast_fallback current_price))
      | ObjCol cells \<Rightarrow>
          (let prices = dropna cells
           in if length prices \<ge> 20 then Raises TypeError
              else Returns (forecast_fallback current_price)))"

definition get_base_forecast :: "data_frame option \<Rightarrow> string \<Rightarrow> real \<Rightarrow> forecast outcome" where
  "get_base_forecast market_data symbol current_price =
     (let symbol_col = upper symbol @ ''.NS'';
          fallback = forecast_fallback current_price
      in case market_data of
           None \<Rightarrow> Returns fallback
         | Some df \<Rightarrow>
             (case df symbol_col of
                None \<Rightarrow> Returns fallback
              | Some col \<Rightarrow> try_except (forecast_body col current_price) fallback))"

section \<open>Topology agent\<close>

text \<open>
  \<^verbatim>\<open>graphData.json\<close> is static data of the deployment. It is typed here by the keys the
  agent reads: nodes with \<^verbatim>\<open>id\<close> (a string), \<^verbatim>\<open>risk_score\<close> (a number) and \<^verbatim>\<open>group\<close>
  (an integer), links with \<^verbatim>\<open>source\<close>, \<^verbatim>\<open>target\<close> (strings) and \<^verbatim>\<open>value\<close> (a number),
  and the clusters under \<^verbatim>\<open>insights\<close> with \<^verbatim>\<open>name\<close>, \<^verbatim>\<open>risk\<close> (strings) and \<^verbatim>\<open>members\<close>
  (a list of strings). A key the code reads with \<^verbatim>\<open>.get\<close> may be absent (\<open>None\<close>).
\<close>

record node =
  node_id :: string
  risk_score :: "real option"
  node_group :: "int option"

record link =
  link_source :: "string option"
  link_target :: "string option"
  link_value :: "real option"

record cluster =
  cluster_label :: "string option"
  cluster_tier :: "string option"
  cluster_members :: "string list"

record graph =
  graph_nodes :: "node list"
  graph_links :: "link list"
  graph_clusters :: "cluster list"

record topology_agent =
  graph_data :: "graph option"
  adjacency_matrix :: "real list list option"
  nodes :: "string list"

text \<open>\<^verbatim>\<open>list.index(x)\<close>, called where \<^verbatim>\<open>x in list\<close> has been tested.\<close>

fun index_of :: "'a list \<Rightarrow> 'a \<Rightarrow> nat" where
  "index_of [] x = 0"
| "index_of (y # ys) x = (if y = x then 0 else Suc (index_of ys x))"

text \<open>\<^verbatim>\<open>m[i, j] = v\<close>\<close>

definition set_entry :: "real list list \<Rightarrow> nat \<Rightarrow> nat \<Rightarrow> real \<Rightarrow> real list list" where
  "set_entry m i j v = m[i := (m ! i)[j := v]]"

definition link_step :: "string list \<Rightarrow> real list list \<Rightarrow> link \<Rightarrow> real list list" where
  "link_step ns m l =
     (case (link_source l, link_target l) of
        (Some src, Some tgt) \<Rightarrow>
          if src \<in> set ns \<and> tgt \<in> set ns
          then (let i = index_of ns src; j = index_of ns tgt;
                    v = (case link_value l of None \<Rightarrow> 1 | Some w \<Rightarrow> w)
                in set_entry (set_entry m i j v) j i v)
          else m
      | _ \<Rightarrow> m)"

definition group_step :: "string list \<Rightarrow> node \<Rightarrow> real list list \<Rightarrow> node \<Rightarrow> real list list" where
  "group_step ns nd m other_node =
     (if node_id other_node \<in> set ns \<and> node_id other_node \<noteq> node_id nd
      then (let i = index_of ns (node_id nd);
                grp = (case node_group nd of None \<Rightarrow> 0 | Some g \<Rightarrow> g);
                j = index_of ns (node_id other_node)
            in if node_group other_node = Some grp then set_entry m i j 0.7
               else set_entry m i j 0.3)
      else m)"

definition node_step :: "string list \<Rightarrow> node list \<Rightarrow> real list list \<Rightarrow> node \<Rightarrow> real list list" where
  "node_step ns all_nodes m nd =
     (if node_id nd \<in> set ns then foldl (group_step ns nd) m all_nodes else m)"

definition build_adjacency_matrix :: "graph \<Rightarrow> string list \<Rightarrow> real list list" where
  "build_adjacency_matrix g ns =
     (let n = length ns;
          zeros = replicate n (replicate n 0)
      in if graph_links g \<noteq> [] then foldl (link_step ns) zeros (graph_links g)
         else foldl (node_step ns (graph_nodes g)) zeros (graph_nodes g))"

text \<open>
  \<^verbatim>\<open>TopologyAgent.__init__\<close> with \<^verbatim>\<open>_load_graph_data\<close>; \<open>None\<close> is a missing or empty
  file.
\<close>

definition load_graph_data :: "graph option \<Rightarrow> topology_agent" where
  "load_graph_data file =
     (case file of
        None \<Rightarrow> \<lparr> graph_data = None, adjacency_matrix = None, nodes = [] \<rparr>
      | Some g \<Rightarrow>
          (let ns = map node_id (graph_nodes g)
           in \<lparr> graph_data = Some g,
                adjacency_matrix = Some (build_adjacency_matrix g ns),
                nodes = ns \<rparr>))"

record neighbor_signal =
  ns_symbol :: string
  ns_signal :: string
  ns_risk_score :: real

record topology_result =
  network_risk_penalty :: real
  risk_adjustment :: real
  centrality_score :: real
  cluster_name :: string
  cluster_risk :: string
  neighbor_signals :: "neighbor_signal list"
  contagion_risk :: real

definition topology_default :: topology_result where
  "topology_default =
     \<lparr> network_risk_penalty = 0.0, risk_adjustment = 1.0, centrality_score = 0.5,
       cluster_name = ''Unknown'', cluster_risk = ''Moderate'', neighbor_signals = [],
       contagion_risk = 0.0 \<rparr>"

text \<open>\<^verbatim>\<open>xs[i]\<close> with a natural index\<close>

definition list_get :: "'a list \<Rightarrow> nat \<Rightarrow> 'a outcome" where
  "list_get xs i = (if i < length xs then Returns (xs ! i) else Raises IndexError)"

text \<open>\<^verbatim>\<open>np.diag(np.sum(A, axis=1)) - A\<close>\<close>

definition laplacian :: "real list list \<Rightarrow> real list list" where
  "laplacian a =
     map (\<lambda>i. map (\<lambda>j. (if i = j then sum_list (a ! i) else 0) - a ! i ! j)
                   [0 ..< length (a ! i)])
         [0 ..< length a]"

text \<open>\<^verbatim>\<open>np.where(row > 0)[0]\<close>\<close>

definition positive_indices :: "real list \<Rightarrow> nat list" where
  "positive_indices row = filter (\<lambda>j. row ! j > 0) [0 ..< length row]"

text \<open>The inner loop of lines 264 to 274 for one neighbour index.\<close>

definition neighbor_step ::
  "graph \<Rightarrow> string list \<Rightarrow> neighbor_signal list \<Rightarrow> nat \<Rightarrow> neighbor_signal list outcome" where
  "neighbor_step g ns acc n_idx =
     bind_outcome (list_get ns n_idx) (\<lambda>n_symbol.
       case find (\<lambda>n_data. node_id n_data = n_symbol) (graph_nodes g) of
         None \<Rightarrow> Returns acc
       | Some n_data \<Rightarrow>
           (let score = (case risk_score n_data of None \<Rightarrow> 0.5 | Some r \<Rightarrow> r);
                signal = (if score < 0.4 then ''bullish'' else ''bearish'')
            in Returns (acc @ [\<lparr> ns_symbol = n_symbol, ns_signal = signal,
                                 ns_risk_score = score \<rparr>])))"

fun neighbor_loop ::
  "graph \<Rightarrow> string list \<Rightarrow> neighbor_signal list \<Rightarrow> nat list \<Rightarrow> neighbor_signal list outcome" where
  "neighbor_loop g ns acc [] = Returns acc"
| "neighbor_loop g ns acc (n_idx # rest) =
     bind_outcome (neighbor_step g ns acc n_idx) (\<lambda>acc'. neighbor_loop g ns acc' rest)"

text \<open>
  \<^verbatim>\<open>np.linalg.eigvalsh\<close> is numpy's: the eigenvalues of a symmetric matrix, or a
  \<^verbatim>\<open>LinAlgError\<close> (\<open>None\<close>) when the computation does not converge. It is a parameter of
  the model.
\<close>

type_synonym eigen_solver = "real list list \<Rightarrow> real list option"

text \<open>Lines 228 to 233: the degree centrality of the node.\<close>

definition degree_centrality :: "real list list option \<Rightarrow> string list \<Rightarrow> nat \<Rightarrow> real outcome" where
  "degree_centrality adj ns node_idx =
     (case adj of
        Some a \<Rightarrow>
          bind_outcome (list_get a node_idx) (\<lambda>row.
            let degree = length (filter (\<lambda>w. w > 0) row);
                max_degree = int (length ns) - 1
            in Returns (if max_degree > 0 then real degree / real_of_int max_degree else 0))
      | None \<Rightarrow> Returns 0.5)"

text \<open>Lines 236 to 242: the first cluster that lists the symbol.\<close>

definition find_cluster :: "graph \<Rightarrow> string \<Rightarrow> string \<times> string" where
  "find_cluster g upper_symbol =
     (case find (\<lambda>c. upper_symbol \<in> set (cluster_members c)) (graph_clusters g) of
        Some c \<Rightarrow>
          (case cluster_label c of None \<Rightarrow> ''Unknown'' | Some nm \<Rightarrow> nm,
           case cluster_tier c of None \<Rightarrow> ''Moderate'' | Some r \<Rightarrow> r)
      | None \<Rightarrow> (''General'', ''Moderate''))"

text \<open>Lines 246 to 258: the contagion risk from the second smallest eigenvalue.\<close>

definition laplacian_contagion :: "eigen_solver \<Rightarrow> real list list option \<Rightarrow> real outcome" where
  "laplacian_contagion eigvalsh adj =
     (case adj of
        Some a \<Rightarrow>
          (case eigvalsh (laplacian a) of
             None \<Rightarrow> Raises LinAlgError
           | Some eigenvalues \<Rightarrow>
               (let fiedler_value = (if length eigenvalues > 1 then sort eigenvalues ! 1 else 0)
                in Returns (min (fiedler_value / 10) 1.0)))
      | None \<Rightarrow> Returns 0.3)"

text \<open>Lines 261 to 274: the signals of the first five neighbours.\<close>

definition collect_neighbor_signals ::
  "graph \<Rightarrow> real list list option \<Rightarrow> string list \<Rightarrow> nat \<Rightarrow> neighbor_signal list outcome" where
  "collect_neighbor_signals g adj ns node_idx =
     (case adj of
        Some a \<Rightarrow>
          bind_outcome (list_get a node_idx) (\<lambda>row.
            neighbor_loop g ns [] (take 5 (positive_indices row)))
      | None \<Rightarrow> Returns [])"

text \<open>Lines 278 to 288: the penalty from the cluster's risk and the bearish neighbours.\<close>

definition risk_penalty_of :: "string \<Rightarrow> real \<Rightarrow> neighbor_signal list \<Rightarrow> real" where
  "risk_penalty_of c_risk contagion signals =
     (let risk_penalty =
            (if c_risk = ''Critical'' then 0.05 + contagion * 0.05
             else if c_risk = ''High'' then 0.03 + contagion * 0.03
             else contagion * 0.02);
          bearish_count = length (filter (\<lambda>s. ns_signal s = ''bearish'') signals)
      in if real bearish_count > real (length signals) / 2
         then risk_penalty + 0.02 * real bearish_count
         else risk_penalty)"

text \<open>The body of the \<^verbatim>\<open>try\<close> block of \<^verbatim>\<open>compute_laplacian_risk\<close>.\<close>

definition topology_body ::
  "eigen_solver \<Rightarrow> graph \<Rightarrow> real list list option \<Rightarrow> string list \<Rightarrow> string
     \<Rightarrow> topology_result outcome" where
  "topology_body eigvalsh g adj ns symb =
     (let node_idx = index_of ns (upper symb)
      in case find (\<lambda>n. node_id n = upper symb) (graph_nodes g) of
           None \<Rightarrow> Returns topology_default
         | Some node_data \<Rightarrow>
             bind_outcome (degree_centrality adj ns node_idx) (\<lambda>centrality.
             let (c_name, c_risk) = find_cluster g (upper symb)
             in bind_outcome (laplacian_contagion eigvalsh adj) (\<lambda>contagion.
                bind_outcome (collect_neighbor_signals g adj ns node_idx) (\<lambda>signals.
                  let risk_penalty = risk_penalty_of c_risk contagion signals
                  in Returns
                       \<lparr> network_risk_penalty = py_round risk_penalty 4,
                         risk_adjustment = py_round (1 - risk_penalty) 4,
                         centrality_score = py_round centrality 3,
                         cluster_name = c_name,
                         cluster_risk = c_risk,
                         neighbor_signals = signals,
                         contagion_risk = py_round contagion 3 \<rparr>))))"

definition compute_laplacian_risk ::
  "eigen_solver \<Rightarrow> topology_agent \<Rightarrow> string \<Rightarrow> topology_result outcome" where
  "compute_laplacian_risk eigvalsh agent symbol =
     (case graph_data agent of
        None \<Rightarrow> Returns topology_default
      | Some g \<Rightarrow>
          if upper symbol \<notin> set (nodes agent) then Returns topology_default
          else try_except
                 (topology_body eigvalsh g (adjacency_matrix agent) (nodes agent) symbol)
                 topology_default)"

section \<open>The result cache\<close>

text \<open>
  \<^verbatim>\<open>ensemble_cache = TTLCache(maxsize=100, ttl=300)\<close> is \<^verbatim>\<open>cachetools\<close>' class, not code
  of the service. It is modelled from the library's documented behaviour: the entries in
  least-recently-used order, each with the time at which it expires. The timer is
  \<^verbatim>\<open>time.monotonic\<close>, whose readings are parameters of every operation; with a monotonic
  timer and one time-to-live the expired entries are exactly those \<^verbatim>\<open>expire\<close> removes.
  The key \<^verbatim>\<open>f"{symbol}_{current_price}_{shock_simulation}"\<close> determines the triple it is
  formatted from (the last two parts hold no underscore), so the triple is the key.
\<close>

type_synonym cache_key = "string \<times> real \<times> bool"

type_synonym 'v ttl_cache = "(cache_key \<times> real \<times> 'v) list"

definition maxsize :: nat where
  "maxsize = 100"

definition ttl :: real where
  "ttl = 300"

text \<open>\<^verbatim>\<open>key in cache\<close>: present and not expired at the reading \<open>now\<close>.\<close>

definition cache_contains :: "'v ttl_cache \<Rightarrow> real \<Rightarrow> cache_key \<Rightarrow> bool" where
  "cache_contains c now k = (case map_of c k of None \<Rightarrow> False | Some (expires, v) \<Rightarrow> now < expires)"

text \<open>
  \<^verbatim>\<open>cache[key]\<close>: the entry becomes the most recently used; an expired or missing one is
  a \<^verbatim>\<open>KeyError\<close>.
\<close>

definition cache_getitem :: "'v ttl_cache \<Rightarrow> real \<Rightarrow> cache_key \<Rightarrow> 'v outcome \<times> 'v ttl_cache" where
  "cache_getitem c now k =
     (case map_of c k of
        None \<Rightarrow> (Raises KeyError, c)
      | Some (expires, v) \<Rightarrow>
          (let c' = filter (\<lambda>e. fst e \<noteq> k) c @ [(k, expires, v)]
           in if now < expires then (Returns v, c') else (Raises KeyError, c')))"

definition expire :: "'v ttl_cache \<Rightarrow> real \<Rightarrow> 'v ttl_cache" where
  "expire c now = filter (\<lambda>(k, expires, v). now < expires) c"

text \<open>
  \<^verbatim>\<open>cache[key] = value\<close>: the expired entries go, then, for a new key, the least recently
  used ones while the cache is full; the entry is stored as the most recently used one and
  expires \<open>ttl\<close> after the reading \<open>now\<close>.
\<close>

definition cache_setitem :: "'v ttl_cache \<Rightarrow> real \<Rightarrow> cache_key \<Rightarrow> 'v \<Rightarrow> 'v ttl_cache" where
  "cache_setitem c now k v =
     (let c1 = expire c now;
          c2 = (if k \<in> fst ` set c1 then filter (\<lambda>e. fst e \<noteq> k) c1
                else drop (length c1 + 1 - maxsize) c1)
      in c2 @ [(k, now + ttl, v)])"

section \<open>Orchestrator\<close>

record quant_component =
  qa_base_forecast :: real
  qa_confidence :: real
  qa_direction :: string
  qa_volatility :: real
  qa_trend_strength :: real
  qa_weight :: real

record topology_component =
  ta_risk_adjustment :: real
  ta_adjusted_price :: real
  ta_network_risk_penalty :: real
  ta_cluster_name :: string
  ta_cluster_risk :: string
  ta_centrality_score :: real
  ta_contagion_risk :: real
  ta_neighbor_signals :: "neighbor_signal list"
  ta_weight :: real

record sentiment_component =
  sa_sentiment_multiplier :: real
  sa_consensus_score :: real
  sa_sentiment_label :: string
  sa_bull_bear_ratio :: real
  sa_confidence :: real
  sa_weight :: real

record comparison =
  lstm_base :: real
  agentic_adjusted :: real
  topology_adjustment_pct :: real
  sentiment_adjustment_pct :: real
  total_adjustment_pct :: real

record ensemble_result =
  symbol :: string
  timestamp :: string
  current_price :: real
  weighted_prediction :: real
  confidence_score :: real
  final_direction :: string
  price_change_percent :: real
  comp_quant_agent :: quant_component
  comp_topology_agent :: topology_component
  comp_sentiment_agent :: sentiment_component
  comparison_data :: comparison
  shock_simulation_active :: bool
  disclaimer :: string

definition weight_quant :: real where "weight_quant = 0.50"
definition weight_topology :: real where "weight_topology = 0.30"
definition weight_sentiment :: real where "weight_sentiment = 0.20"

definition disclaimer_text :: string where
  "disclaimer_text = ''This ensemble prediction is for demonstration purposes only. It combines multiple AI agents but should NOT be used for actual trading decisions.''"

text \<open>Lines 432 to 435.\<close>

definition apply_shock :: "bool \<Rightarrow> topology_result \<Rightarrow> topology_result" where
  "apply_shock shock_simulation topology_risk =
     (if shock_simulation
      then topology_risk
             \<lparr> risk_adjustment := risk_adjustment topology_risk * 0.9,
               network_risk_penalty := network_risk_penalty topology_risk + 0.1,
               contagion_risk := min (contagion_risk topology_risk + 0.3) 1.0 \<rparr>
      else topology_risk)"

text \<open>Lines 438, 441, 444 and 459.\<close>

definition final_predicted_of :: "forecast \<Rightarrow> topology_result \<Rightarrow> sentiment_result \<Rightarrow> real" where
  "final_predicted_of quant_forecast topology_risk sentiment =
     (let base_predicted = predicted_price quant_forecast;
          topology_adjusted = base_predicted * risk_adjustment topology_risk
      in topology_adjusted * sentiment_multiplier sentiment)"

definition price_change_pct_of :: "real \<Rightarrow> real \<Rightarrow> real" where
  "price_change_pct_of final_predicted cur_price =
     ((final_predicted - cur_price) / cur_price) * 100"

text \<open>Lines 460 to 465.\<close>

definition direction_of :: "real \<Rightarrow> string" where
  "direction_of price_change_pct =
     (if price_change_pct > 1 then ''UP''
      else if price_change_pct < - 1 then ''DOWN''
      else ''SIDEWAYS'')"

text \<open>
  Lines 437 to 527: the fusion of the three agents' results, the shock already applied.
  The divisions are by \<^verbatim>\<open>current_price\<close> and by \<^verbatim>\<open>base_predicted\<close> (the one by
  \<^verbatim>\<open>topology_adjusted\<close> is guarded). The fallback forecast is a Python float, and with it
  a zero \<^verbatim>\<open>current_price\<close> raises \<^verbatim>\<open>ZeroDivisionError\<close>, at the latest in
  \<^verbatim>\<open>total_adjustment_pct\<close>; the technical forecast is a numpy float, and a division of it
  by zero gives \<open>inf\<close> or \<open>nan\<close>.
\<close>

definition fuse ::
  "string \<Rightarrow> real \<Rightarrow> bool \<Rightarrow> string \<Rightarrow> forecast \<Rightarrow> topology_result \<Rightarrow> sentiment_result
     \<Rightarrow> ensemble_result outcome" where
  "fuse symb cur_price shock_simulation now_iso quant_forecast topology_risk sentiment =
     (let base_predicted = predicted_price quant_forecast;
          topology_adjusted = base_predicted * risk_adjustment topology_risk;
          final_predicted = final_predicted_of quant_forecast topology_risk sentiment;
          quant_conf = confidence quant_forecast;
          topology_conf = (1 - network_risk_penalty topology_risk) * 100;
          sentiment_conf = sentiment_confidence sentiment;
          ensemble_confidence =
            quant_conf * weight_quant + topology_conf * weight_topology
              + sentiment_conf * weight_sentiment
      in if cur_price = 0 \<or> base_predicted = 0
         then (if method_tag quant_forecast = ''fallback'' then Raises ZeroDivisionError
               else FloatSpecial)
         else
           (let price_change_pct = price_change_pct_of final_predicted cur_price;
                topology_adjustment = ((topology_adjusted - base_predicted) / base_predicted) * 100;
                sentiment_adjustment =
                  (if topology_adjusted > 0
                   then ((final_predicted - topology_adjusted) / topology_adjusted) * 100
                   else 0)
            in Returns
                 \<lparr> symbol = upper symb,
                   timestamp = now_iso,
                   current_price = cur_price,
                   weighted_prediction = py_round final_predicted 2,
                   confidence_score = py_round ensemble_confidence 1,
                   final_direction = direction_of price_change_pct,
                   price_change_percent = py_round price_change_pct 2,
                   comp_quant_agent =
                     \<lparr> qa_base_forecast = py_round base_predicted 2,
                       qa_confidence = confidence quant_forecast,
                       qa_direction = direction quant_forecast,
                       qa_volatility = volatility quant_forecast,
                       qa_trend_strength = trend_strength quant_forecast,
                       qa_weight = weight_quant \<rparr>,
                   comp_topology_agent =
                     \<lparr> ta_risk_adjustment = risk_adjustment topology_risk,
                       ta_adjusted_price = py_round topology_adjusted 2,
                       ta_network_risk_penalty = network_risk_penalty topology_risk,
                       ta_cluster_name = cluster_name topology_risk,
                       ta_cluster_risk = cluster_risk topology_risk,
                       ta_centrality_score = centrality_score topology_risk,
                       ta_contagion_risk = contagion_risk topology_risk,
                       ta_neighbor_signals = neighbor_signals topology_risk,
                       ta_weight = weight_topology \<rparr>,
                   comp_sentiment_agent =
                     \<lparr> sa_sentiment_multiplier = sentiment_multiplier sentiment,
                       sa_consensus_score = consensus_score sentiment,
                       sa_sentiment_label = sentiment_label sentiment,
                       sa_bull_bear_ratio = bull_bear_ratio sentiment,
                       sa_confidence = sentiment_confidence sentiment,
                       sa_weight = weight_sentiment \<rparr>,
                   comparison_data =
                     \<lparr> lstm_base = py_round base_predicted 2,
                       agentic_adjusted = py_round final_predicted 2,
                       topology_adjustment_pct = py_round topology_adjustment 2,
                       sentiment_adjustment_pct = py_round sentiment_adjustment 2,
                       total_adjustment_pct =
                         py_round (price_change_pct
                                   - ((base_predicted - cur_price) / cur_price * 100)) 2 \<rparr>,
                   shock_simulation_active = shock_simulation,
                   disclaimer = disclaimer_text \<rparr>))"

text \<open>
  The orchestrator holds the quant agent's table and the topology agent; both are loaded
  once and never written again.
\<close>

record orchestrator =
  market_data :: "data_frame option"
  topology :: topology_agent

text \<open>
  The clock readings of one call of \<^verbatim>\<open>predict\<close>: the timer at the membership test, at
  the read and at the store, and \<^verbatim>\<open>datetime.now().isoformat()\<close>.
\<close>

record clock =
  t_contains :: real
  t_getitem :: real
  t_setitem :: real
  now_iso :: string

text \<open>Lines 427 to 527: what a call computes when the cache has no live entry.\<close>

definition compute_prediction ::
  "eigen_solver \<Rightarrow> orchestrator \<Rightarrow> string \<Rightarrow> string \<Rightarrow> real \<Rightarrow> json option \<Rightarrow> bool
     \<Rightarrow> ensemble_result outcome" where
  "compute_prediction eigvalsh orch stamp symb cur_price sentiment_data shock_simulation =
     bind_outcome (get_base_forecast (market_data orch) symb cur_price) (\<lambda>quant_forecast.
     bind_outcome (compute_laplacian_risk eigvalsh (topology orch) symb) (\<lambda>topology_risk.
     bind_outcome (get_sentiment_multiplier sentiment_data) (\<lambda>sentiment.
       fuse symb cur_price shock_simulation stamp quant_forecast
         (apply_shock shock_simulation topology_risk) sentiment)))"

text \<open>
  \<^verbatim>\<open>EnsembleOrchestrator.predict\<close>, with the cache before the call and after it. An
  exception leaves the call before the store; a result with \<open>inf\<close> or \<open>nan\<close> in it is
  stored like any other.
\<close>

definition predict ::
  "eigen_solver \<Rightarrow> orchestrator \<Rightarrow> ensemble_result outcome ttl_cache \<Rightarrow> clock
     \<Rightarrow> string \<Rightarrow> real \<Rightarrow> json option \<Rightarrow> bool
     \<Rightarrow> ensemble_result outcome \<times> ensemble_result outcome ttl_cache" where
  "predict eigvalsh orch cache clk symb cur_price sentiment_data shock_simulation =
     (let cache_key = (symb, cur_price, shock_simulation)
      in if cache_contains cache (t_contains clk) cache_key
         then (case cache_getitem cache (t_getitem clk) cache_key of
                 (Returns cached, cache') \<Rightarrow> (cached, cache')
               | (Raises e, cache') \<Rightarrow> (Raises e, cache')
               | (FloatSpecial, cache') \<Rightarrow> (FloatSpecial, cache'))
         else (case compute_prediction eigvalsh orch (now_iso clk) symb cur_price
                      sentiment_data shock_simulation of
                 Raises e \<Rightarrow> (Raises e, cache)
               | result \<Rightarrow> (result, cache_setitem cache (t_setitem clk) cache_key result)))"

section \<open>Notions the properties are stated with\<close>

text \<open>
  The price series available for a symbol: the column \<^verbatim>\<open>f"{symbol.upper()}.NS"\<close> of the
  table, if there is a table and it has the column; its observations are the cells left by
  \<^verbatim>\<open>dropna()\<close>.
\<close>

definition available_series :: "data_frame option \<Rightarrow> string \<Rightarrow> column option" where
  "available_series md symb =
     (case md of None \<Rightarrow> None | Some df \<Rightarrow> df (upper symb @ ''.NS''))"

definition observations :: "column \<Rightarrow> nat" where
  "observations col =
     (case col of NumCol cells \<Rightarrow> length (dropna cells) | ObjCol cells \<Rightarrow> length (dropna cells))"

text \<open>
  The indicators in the words of the specification: the simple returns of a series, the
  standard deviation of a sample, the simple moving average of the last \<open>n\<close> prices, the
  trend (SMA5 - SMA20)/SMA20 and the momentum (last price - SMA5)/SMA5.
\<close>

definition simple_returns :: "real list \<Rightarrow> real list" where
  "simple_returns ps = map (\<lambda>i. (ps ! Suc i - ps ! i) / ps ! i) [0 ..< length ps - 1]"

definition std_dev :: "real list \<Rightarrow> real" where
  "std_dev xs =
     (let mu = sum_list xs / real (length xs)
      in sqrt (sum_list (map (\<lambda>x. (x - mu)\<^sup>2) xs) / real (length xs)))"

definition sma :: "nat \<Rightarrow> real list \<Rightarrow> real" where
  "sma n ps = sum_list (drop (length ps - n) ps) / real n"

definition spec_trend :: "real list \<Rightarrow> real" where
  "spec_trend ps = (sma 5 ps - sma 20 ps) / sma 20 ps"

definition spec_momentum :: "real list \<Rightarrow> real" where
  "spec_momentum ps = (last ps - sma 5 ps) / sma 5 ps"

text \<open>
  A series on which the indicators divide by zero: it is numeric and has at least 20
  observations, so that the indicators are computed, and a price before the last (a
  divisor of the returns), the 20-period average (the divisor of the trend) or the
  5-period average (the divisor of the momentum) is 0.
\<close>

definition divides_by_zero :: "column \<Rightarrow> bool" where
  "divides_by_zero col =
     (case col of
        NumCol cells \<Rightarrow>
          20 \<le> length (dropna cells)
          \<and> (0 \<in> set (butlast (dropna cells)) \<or> sma 20 (dropna cells) = 0
               \<or> sma 5 (dropna cells) = 0)
      | ObjCol cells \<Rightarrow> False)"

text \<open>
  The confidence a payload carries: the number under \<^verbatim>\<open>news.confidence\<close>, 50 when the
  key is absent. A graph without a link from a node to itself.
\<close>

definition payload_confidence :: "json \<Rightarrow> real outcome" where
  "payload_confidence j =
     bind_outcome (dict_get j ''news'' (JObj [])) (\<lambda>news.
     bind_outcome (dict_get news ''confidence'' (JNum 50)) as_number)"

definition no_self_links :: "graph \<Rightarrow> bool" where
  "no_self_links g =
     list_all (\<lambda>l. link_source l = None \<or> link_source l \<noteq> link_target l) (graph_links g)"

text \<open>The value a call returned, if it returned one.\<close>

definition returned :: "'a outcome \<Rightarrow> 'a option" where
  "returned res = (case res of Returns x \<Rightarrow> Some x | Raises e \<Rightarrow> None | FloatSpecial \<Rightarrow> None)"

text \<open>
  The cache states of a running service: the cache starts empty, and the only code that
  writes it is \<^verbatim>\<open>predict\<close>, called with any arguments at any clock readings, on data
  that never changes.
\<close>

inductive reachable ::
  "eigen_solver \<Rightarrow> orchestrator \<Rightarrow> ensemble_result outcome ttl_cache \<Rightarrow> bool"
  for eigvalsh :: eigen_solver and orch :: orchestrator where
  reachable_empty: "reachable eigvalsh orch []"
| reachable_predict:
    "reachable eigvalsh orch c \<Longrightarrow>
     snd (predict eigvalsh orch c clk symb cur_price sentiment_data shock_simulation) = c' \<Longrightarrow>
     reachable eigvalsh orch c'"

section \<open>Example data\<close>

text \<open>A graph of two nodes of one group, without links and without clusters.\<close>

definition example_graph :: graph where
  "example_graph =
     \<lparr> graph_nodes = [\<lparr> node_id = ''TCS'', risk_score = Some 0.3, node_group = Some 1 \<rparr>,
                      \<lparr> node_id = ''INFY'', risk_score = None, node_group = Some 1 \<rparr>],
       graph_links = [], graph_clusters = [] \<rparr>"

text \<open>A column of twenty cells that did not parse as numbers.\<close>

definition text_column :: column where
  "text_column = ObjCol (replicate 20 (Some ''n/a''))"

text \<open>An eigenvalue routine that does not converge.\<close>

definition failing_solver :: eigen_solver where
  "failing_solver m = None"

text \<open>A table with three cells, one of them missing, for one symbol.\<close>

definition short_table :: data_frame where
  "short_table = [''TCS.NS'' \<mapsto> NumCol [Some 3100, None, Some 3120]]"

text \<open>A series of 21 prices that alternates between 100 and 110.\<close>

definition zigzag_prices :: "real list" where
  "zigzag_prices =
     [100, 110, 100, 110, 100, 110, 100, 110, 100, 110, 100,
      110, 100, 110, 100, 110, 100, 110, 100, 110, 100]"

definition zigzag_table :: data_frame where
  "zigzag_table = [''ZIG.NS'' \<mapsto> NumCol (map Some zigzag_prices)]"

text \<open>The same series as the prices of a symbol that is also a node of the example graph.\<close>

definition tcs_table :: data_frame where
  "tcs_table = [''TCS.NS'' \<mapsto> NumCol (map Some zigzag_prices)]"

text \<open>A payload whose confidence is 150, and one whose confidence is 80.\<close>

definition news_payload :: "string \<Rightarrow> real \<Rightarrow> json" where
  "news_payload dir conf =
     JObj [(''news'', JObj [(''sentimentDirection'', JStr dir), (''confidence'', JNum conf)])]"

text \<open>
  Two nodes with a link between them and a link from the first to itself. The Laplacian
  of a graph of two nodes is \<open>[[a, -a], [-a, a]]\<close>, with the eigenvalues 0 and \<open>2a\<close>.
\<close>

definition self_link_graph :: graph where
  "self_link_graph =
     \<lparr> graph_nodes = [\<lparr> node_id = ''TCS'', risk_score = Some 0.3, node_group = Some 1 \<rparr>,
                      \<lparr> node_id = ''INFY'', risk_score = Some 0.5, node_group = Some 1 \<rparr>],
       graph_links = [\<lparr> link_source = Some ''TCS'', link_target = Some ''INFY'',
                        link_value = Some 1 \<rparr>,
                      \<lparr> link_source = Some ''TCS'', link_target = Some ''TCS'',
                        link_value = Some 1 \<rparr>],
       graph_clusters = [] \<rparr>"

definition two_node_solver :: eigen_solver where
  "two_node_solver m = Some [0, 2 * (m ! 0 ! 0)]"

text \<open>
  Three nodes in a row joined by two links of value -5. The Laplacian of the adjacency
  matrix is \<open>[[-5, 5, 0], [5, -10, 5], [0, 5, -5]]\<close>, with the eigenvalues -15, -5 and 0.
\<close>

definition negative_link_graph :: graph where
  "negative_link_graph =
     \<lparr> graph_nodes = [\<lparr> node_id = ''TCS'', risk_score = Some 0.3, node_group = Some 1 \<rparr>,
                      \<lparr> node_id = ''INFY'', risk_score = Some 0.5, node_group = Some 1 \<rparr>,
                      \<lparr> node_id = ''WIPRO'', risk_score = Some 0.5, node_group = Some 1 \<rparr>],
       graph_links = [\<lparr> link_source = Some ''TCS'', link_target = Some ''INFY'',
                        link_value = Some (- 5) \<rparr>,
                      \<lparr> link_source = Some ''INFY'', link_target = Some ''WIPRO'',
                        link_value = Some (- 5) \<rparr>],
       graph_clusters = [] \<rparr>"

definition three_node_solver :: eigen_solver where
  "three_node_solver m = Some [- 15, - 5, 0]"

definition mat_vec :: "real list list \<Rightarrow> real list \<Rightarrow> real list" where
  "mat_vec m v = map (\<lambda>row. sum_list (map (\<lambda>(a, x). a * x) (zip row v))) m"

text \<open>A table whose only series is twenty times the price 0.\<close>

definition zero_table :: data_frame where
  "zero_table = [''NIL.NS'' \<mapsto> NumCol (replicate 20 (Some 0))]"

text \<open>
  The service without a price table and without a graph, and with the short table and
  the example graph.
\<close>

definition bare_orchestrator :: orchestrator where
  "bare_orchestrator = \<lparr> market_data = None, topology = load_graph_data None \<rparr>"

definition example_orchestrator :: orchestrator where
  "example_orchestrator =
     \<lparr> market_data = Some short_table, topology = load_graph_data (Some example_graph) \<rparr>"

text \<open>Two calls 200 seconds apart.\<close>

definition first_clock :: clock where
  "first_clock =
     \<lparr> t_contains = 0, t_getitem = 0, t_setitem = 0, now_iso = ''2026-01-05T09:00:00'' \<rparr>"

definition second_clock :: clock where
  "second_clock =
     \<lparr> t_contains = 200, t_getitem = 200, t_setitem = 200, now_iso = ''2026-01-05T09:03:20'' \<rparr>"

text \<open>
  The specification's end-to-end example: RELIANCE at 2950.0, no payload, no shock, on
  the service without data, computed at the first clock.
\<close>

definition reliance_result :: ensemble_result where
  "reliance_result =
     \<lparr> symbol = ''RELIANCE'', timestamp = ''2026-01-05T09:00:00'', current_price = 2950,
       weighted_prediction = 3009, confidence_score = 72.5, final_direction = ''UP'',
       price_change_percent = 2,
       comp_quant_agent =
         \<lparr> qa_base_forecast = 3009, qa_confidence = 65, qa_direction = ''UP'',
           qa_volatility = 0.02, qa_trend_strength = 0.5, qa_weight = 0.5 \<rparr>,
       comp_topology_agent =
         \<lparr> ta_risk_adjustment = 1, ta_adjusted_price = 3009, ta_network_risk_penalty = 0,
           ta_cluster_name = ''Unknown'', ta_cluster_risk = ''Moderate'',
           ta_centrality_score = 0.5, ta_contagion_risk = 0, ta_neighbor_signals = [],
           ta_weight = 0.3 \<rparr>,
       comp_sentiment_agent =
         \<lparr> sa_sentiment_multiplier = 1, sa_consensus_score = 0,
           sa_sentiment_label = ''Neutral'', sa_bull_bear_ratio = 0.5, sa_confidence = 50,
           sa_weight = 0.2 \<rparr>,
       comparison_data =
         \<lparr> lstm_base = 3009, agentic_adjusted = 3009, topology_adjustment_pct = 0,
           sentiment_adjustment_pct = 0, total_adjustment_pct = 0 \<rparr>,
       shock_simulation_active = False,
       disclaimer = disclaimer_text \<rparr>"

text \<open>
  A series of 20 prices with SMA20 = 100, SMA5 = 102 and the last price 102, so that the
  trend is 0.02 and the momentum 0, and the service that has it.
\<close>

definition boundary_prices :: "real list" where
  "boundary_prices =
     [104, 99, 99, 99, 99, 99, 99, 99, 99, 99, 99, 99, 99, 99, 99, 102, 102, 102, 102, 102]"

definition boundary_orchestrator :: orchestrator where
  "boundary_orchestrator =
     \<lparr> market_data = Some [''EDGE.NS'' \<mapsto> NumCol (map Some boundary_prices)],
       topology = load_graph_data None \<rparr>"

section \<open>Rounding keeps a value between two grid points\<close>

lemma py_round_int_ge: "of_int k \<le> x \<Longrightarrow> k \<le> py_round_int x"
proof -
  assume "of_int k \<le> x"
  then have "k \<le> \<lfloor>x\<rfloor>" by (simp add: le_floor_iff)
  then show ?thesis by (simp add: py_round_int_def Let_def)
qed

lemma py_round_int_le: "x \<le> of_int k \<Longrightarrow> py_round_int x \<le> k"
proof -
  assume le: "x \<le> of_int k"
  then have fl: "\<lfloor>x\<rfloor> \<le> k" by (simp add: floor_le_iff)
  show ?thesis
  proof (cases "x - of_int \<lfloor>x\<rfloor> < 1 / 2")
    case True
    with fl show ?thesis by (simp add: py_round_int_def Let_def)
  next
    case False
    then have "of_int \<lfloor>x\<rfloor> < x" by linarith
    with le have "of_int \<lfloor>x\<rfloor> < (of_int k :: real)" by linarith
    then have "\<lfloor>x\<rfloor> < k" by simp
    then show ?thesis by (simp add: py_round_int_def Let_def)
  qed
qed

lemma py_round_ge: "of_int k / 10 ^ n \<le> x \<Longrightarrow> of_int k / 10 ^ n \<le> py_round x n"
proof -
  assume "of_int k / 10 ^ n \<le> x"
  then have "of_int k \<le> x * 10 ^ n" by (simp add: divide_le_eq)
  then have "k \<le> py_round_int (x * 10 ^ n)" by (rule py_round_int_ge)
  then have "(of_int k :: real) \<le> of_int (py_round_int (x * 10 ^ n))" by simp
  then show ?thesis by (simp add: py_round_def divide_right_mono)
qed

lemma py_round_le: "x \<le> of_int k / 10 ^ n \<Longrightarrow> py_round x n \<le> of_int k / 10 ^ n"
proof -
  assume "x \<le> of_int k / 10 ^ n"
  then have "x * 10 ^ n \<le> of_int k" by (simp add: le_divide_eq)
  then have "py_round_int (x * 10 ^ n) \<le> k" by (rule py_round_int_le)
  then have "(of_int (py_round_int (x * 10 ^ n)) :: real) \<le> of_int k" by simp
  then show ?thesis by (simp add: py_round_def divide_right_mono)
qed

lemma py_round_grid: "py_round (of_int k / 10 ^ n) n = of_int k / 10 ^ n"
proof -
  have "py_round_int (of_int k) = k" by (simp add: py_round_int_def)
  then show ?thesis by (simp add: py_round_def)
qed

section \<open>Outcomes\<close>

lemma bind_outcome_simps [simp]:
  "bind_outcome (Returns x) f = f x"
  "bind_outcome (Raises e) f = Raises e"
  "bind_outcome FloatSpecial f = FloatSpecial"
  by (simp_all add: bind_outcome_def)

lemma bind_outcome_Returns_iff:
  "bind_outcome m f = Returns r \<longleftrightarrow> (\<exists>x. m = Returns x \<and> f x = Returns r)"
  by (cases m) simp_all

lemma bind_outcome_Special_iff:
  "bind_outcome m f = FloatSpecial \<longleftrightarrow>
     m = FloatSpecial \<or> (\<exists>x. m = Returns x \<and> f x = FloatSpecial)"
  by (cases m) simp_all

lemma try_except_not_Raises: "try_except body dflt \<noteq> Raises e"
  by (cases body) (simp_all add: try_except_def)

lemma try_except_Returns_iff:
  "try_except body dflt = Returns r \<longleftrightarrow>
     body = Returns r \<or> (\<exists>e. body = Raises e) \<and> r = dflt"
  by (cases body) (auto simp: try_except_def)

lemma try_except_Raises_default: "try_except (Raises e) dflt = Returns dflt"
  by (simp add: try_except_def)

section \<open>The sentiment multiplier\<close>

lemma dict_get_not_special [simp]: "dict_get j k d \<noteq> FloatSpecial"
  by (cases j) simp_all

lemma as_number_not_special [simp]: "as_number j \<noteq> FloatSpecial"
  by (cases j) simp_all

lemma round4_clamped:
  "0.9 \<le> py_round (clamp_multiplier m) 4 \<and> py_round (clamp_multiplier m) 4 \<le> 1.1"
proof -
  have lo: "of_int 9000 / 10 ^ 4 \<le> clamp_multiplier m"
    by (simp add: clamp_multiplier_def)
  have hi: "clamp_multiplier m \<le> of_int 11000 / 10 ^ 4"
    by (simp add: clamp_multiplier_def)
  from py_round_ge [OF lo] py_round_le [OF hi] show ?thesis by simp
qed

lemma sentiment_body_multiplier_form:
  assumes "sentiment_body sd = Returns r"
  shows "\<exists>m. sentiment_multiplier r = py_round (clamp_multiplier m) 4"
  using assms
  by (auto simp: sentiment_body_def bind_outcome_Returns_iff Let_def split: if_splits)

lemma sentiment_body_not_special: "sentiment_body sd \<noteq> FloatSpecial"
  by (auto simp: sentiment_body_def bind_outcome_Special_iff Let_def split: if_splits)

lemma get_sentiment_multiplier_returns: "\<exists>r. get_sentiment_multiplier sd = Returns r"
proof (cases "\<exists>j. sd = Some j \<and> truthy j")
  case True
  then obtain j where j: "sd = Some j" "truthy j" by blast
  show ?thesis
  proof (cases "sentiment_body j")
    case (Returns r)
    with j show ?thesis by (simp add: get_sentiment_multiplier_def try_except_def)
  next
    case (Raises e)
    with j show ?thesis by (simp add: get_sentiment_multiplier_def try_except_def)
  next
    case FloatSpecial
    with sentiment_body_not_special show ?thesis by blast
  qed
next
  case False
  then show ?thesis by (cases sd) (auto simp: get_sentiment_multiplier_def)
qed

lemma get_sentiment_multiplier_cases:
  assumes "get_sentiment_multiplier sd = Returns r"
  shows "r = sentiment_default \<or> (\<exists>j. sd = Some j \<and> truthy j \<and> sentiment_body j = Returns r)"
  using assms
  by (auto simp: get_sentiment_multiplier_def try_except_Returns_iff
           split: option.splits if_splits)

lemma get_sentiment_multiplier_range:
  assumes "get_sentiment_multiplier sd = Returns r"
  shows "0.9 \<le> sentiment_multiplier r \<and> sentiment_multiplier r \<le> 1.1"
proof (cases "r = sentiment_default")
  case True
  then show ?thesis by (simp add: sentiment_default_def)
next
  case False
  with get_sentiment_multiplier_cases [OF assms]
  obtain j where "sentiment_body j = Returns r" by blast
  then obtain m where "sentiment_multiplier r = py_round (clamp_multiplier m) 4"
    using sentiment_body_multiplier_form by blast
  then show ?thesis using round4_clamped [of m] by simp
qed

text \<open>
  C6. Whatever the payload is (so for each direction UP, DOWN or NEUTRAL and each
  confidence, in particular one in [0,100]), \<^verbatim>\<open>get_sentiment_multiplier\<close> returns a
  result whose \<^verbatim>\<open>sentiment_multiplier\<close> lies in [0.9, 1.1]; when the payload is absent the
  multiplier is exactly 1.0.
\<close>

theorem sentiment_multiplier_in_range:
  "(\<exists>r. get_sentiment_multiplier sd = Returns r
        \<and> 0.9 \<le> sentiment_multiplier r \<and> sentiment_multiplier r \<le> 1.1)
   \<and> (\<exists>r. get_sentiment_multiplier None = Returns r \<and> sentiment_multiplier r = 1.0)"
proof -
  obtain r where r: "get_sentiment_multiplier sd = Returns r"
    using get_sentiment_multiplier_returns by blast
  moreover have "get_sentiment_multiplier None = Returns sentiment_default"
    by (simp add: get_sentiment_multiplier_def)
  ultimately show ?thesis
    using get_sentiment_multiplier_range [OF r] by (simp add: sentiment_default_def)
qed

section \<open>Defaults of the three agents\<close>

lemma upper_tcs: "upper ''tcs'' = ''TCS''"
  by (simp add: upper_def upper_char_def)

lemma upper_sbin: "upper ''sbin'' = ''SBIN''"
  by (simp add: upper_def upper_char_def)

lemma dropna_replicate: "dropna (replicate n (Some x)) = replicate n x"
  by (induction n) simp_all

lemma example_agent:
  "load_graph_data (Some example_graph) =
     \<lparr> graph_data = Some example_graph, adjacency_matrix = Some [[0, 0.7], [0.7, 0]],
       nodes = [''TCS'', ''INFY''] \<rparr>"
  by (simp add: load_graph_data_def example_graph_def build_adjacency_matrix_def node_step_def
        group_step_def set_entry_def Let_def)

text \<open>
  C1. If no graph data is loaded, or the symbol (upper-cased, as the agent looks it up) is
  not among the node ids of the loaded graph, \<^verbatim>\<open>compute_laplacian_risk\<close> returns exactly
  the neutral default: penalty 0.0, adjustment 1.0, centrality 0.5, cluster "Unknown" of
  risk "Moderate", no neighbour signals, contagion 0.0.
\<close>

theorem unknown_symbol_neutral_default:
  assumes "graph_data agent = None \<or> upper symb \<notin> set (nodes agent)"
  shows "compute_laplacian_risk eigvalsh agent symb =
     Returns \<lparr> network_risk_penalty = 0.0, risk_adjustment = 1.0, centrality_score = 0.5,
       cluster_name = ''Unknown'', cluster_risk = ''Moderate'', neighbor_signals = [],
       contagion_risk = 0.0 \<rparr>"
  using assms
  by (auto simp: compute_laplacian_risk_def topology_default_def split: option.splits)

theorem unknown_symbol_neutral_default_witness:
  "(graph_data (load_graph_data (Some example_graph)) = None
      \<or> upper ''sbin'' \<notin> set (nodes (load_graph_data (Some example_graph))))
   \<and> compute_laplacian_risk failing_solver (load_graph_data (Some example_graph)) ''sbin'' =
     Returns \<lparr> network_risk_penalty = 0.0, risk_adjustment = 1.0, centrality_score = 0.5,
       cluster_name = ''Unknown'', cluster_risk = ''Moderate'', neighbor_signals = [],
       contagion_risk = 0.0 \<rparr>"
proof -
  have h: "graph_data (load_graph_data (Some example_graph)) = None
      \<or> upper ''sbin'' \<notin> set (nodes (load_graph_data (Some example_graph)))"
    by (simp add: example_agent upper_sbin)
  from unknown_symbol_neutral_default [OF h] h show ?thesis by simp
qed

text \<open>
  C2. If the symbol has no price series (no table, or no column for it) or its series has
  fewer than 20 observations, \<^verbatim>\<open>get_base_forecast\<close> returns exactly the fallback
  forecast: the current price times 1.02, direction "UP", confidence 65, volatility 0.02,
  trend strength 0.5, method "fallback".
\<close>

theorem short_series_fallback_forecast:
  assumes "case available_series md symb of
             None \<Rightarrow> True | Some col \<Rightarrow> observations col < 20"
  shows "get_base_forecast md symb cur_price =
     Returns \<lparr> base_price = cur_price, predicted_price = cur_price * 1.02,
       direction = ''UP'', confidence = 65, volatility = 0.02, trend_strength = 0.5,
       method_tag = ''fallback'' \<rparr>"
  using assms
  by (auto simp: get_base_forecast_def available_series_def observations_def forecast_body_def
        forecast_fallback_def try_except_def Let_def split: option.splits column.splits)

theorem short_series_fallback_forecast_witness:
  "(case available_series (Some short_table) ''tcs'' of
      None \<Rightarrow> True | Some col \<Rightarrow> observations col < 20)
   \<and> get_base_forecast (Some short_table) ''tcs'' 100 =
     Returns \<lparr> base_price = 100, predicted_price = 102,
       direction = ''UP'', confidence = 65, volatility = 0.02, trend_strength = 0.5,
       method_tag = ''fallback'' \<rparr>"
proof -
  have h: "case available_series (Some short_table) ''tcs'' of
      None \<Rightarrow> True | Some col \<Rightarrow> observations col < 20"
    by (simp add: available_series_def observations_def short_table_def upper_tcs)
  from short_series_fallback_forecast [OF h, of 100] h show ?thesis by simp
qed

section \<open>No agent raises\<close>

lemma text_column_raises: "forecast_body text_column 100 = Raises TypeError"
  by (simp add: forecast_body_def text_column_def Let_def dropna_replicate)

lemma failing_solver_raises:
  "topology_body failing_solver example_graph (Some [[0, 0.7], [0.7, 0]]) [''TCS'', ''INFY'']
     ''tcs'' = Raises LinAlgError"
  by (simp add: topology_body_def degree_centrality_def laplacian_contagion_def upper_tcs
        example_graph_def list_get_def failing_solver_def Let_def find_cluster_def)

lemma null_news_raises: "sentiment_body (JObj [(''news'', JNull)]) = Raises AttributeError"
  by (simp add: sentiment_body_def)

text \<open>
  C8. None of \<^verbatim>\<open>get_base_forecast\<close>, \<^verbatim>\<open>compute_laplacian_risk\<close> and
  \<^verbatim>\<open>get_sentiment_multiplier\<close> raises, whatever the symbol, the price, the payload, the
  loaded data and the eigenvalue routine are; and whenever the guarded body of one of them
  raises, that agent returns its default (the fallback forecast, the neutral topology
  result, the neutral sentiment).
\<close>

theorem analyzers_never_raise:
  "(\<forall>e. get_base_forecast md symb cur_price \<noteq> Raises e)
   \<and> (\<forall>e. compute_laplacian_risk eigvalsh agent symb \<noteq> Raises e)
   \<and> (\<forall>e. get_sentiment_multiplier sd \<noteq> Raises e)
   \<and> (\<forall>df col e. md = Some df \<and> df (upper symb @ ''.NS'') = Some col
          \<and> forecast_body col cur_price = Raises e
        \<longrightarrow> get_base_forecast md symb cur_price = Returns (forecast_fallback cur_price))
   \<and> (\<forall>g e. graph_data agent = Some g \<and> upper symb \<in> set (nodes agent)
          \<and> topology_body eigvalsh g (adjacency_matrix agent) (nodes agent) symb = Raises e
        \<longrightarrow> compute_laplacian_risk eigvalsh agent symb = Returns topology_default)
   \<and> (\<forall>j e. sd = Some j \<and> truthy j \<and> sentiment_body j = Raises e
        \<longrightarrow> get_sentiment_multiplier sd = Returns sentiment_default)"
proof -
  have q: "get_base_forecast md symb cur_price \<noteq> Raises e" for e
    by (simp add: get_base_forecast_def Let_def try_except_not_Raises split: option.splits)
  have t: "compute_laplacian_risk eigvalsh agent symb \<noteq> Raises e" for e
    by (simp add: compute_laplacian_risk_def try_except_not_Raises split: option.splits)
  have s: "get_sentiment_multiplier sd \<noteq> Raises e" for e
    by (simp add: get_sentiment_multiplier_def try_except_not_Raises split: option.splits)
  have q': "get_base_forecast md symb cur_price = Returns (forecast_fallback cur_price)"
    if "md = Some df" "df (upper symb @ ''.NS'') = Some col"
       "forecast_body col cur_price = Raises e"
    for df col e
    using that by (simp add: get_base_forecast_def Let_def try_except_Raises_default)
  have t': "compute_laplacian_risk eigvalsh agent symb = Returns topology_default"
    if "graph_data agent = Some g" "upper symb \<in> set (nodes agent)"
       "topology_body eigvalsh g (adjacency_matrix agent) (nodes agent) symb = Raises e"
    for g e
    using that by (simp add: compute_laplacian_risk_def try_except_Raises_default)
  have s': "get_sentiment_multiplier sd = Returns sentiment_default"
    if "sd = Some j" "truthy j" "sentiment_body j = Raises e" for j e
    using that by (simp add: get_sentiment_multiplier_def try_except_Raises_default)
  from q t s q' t' s' show ?thesis by blast
qed

theorem analyzers_never_raise_witness:
  "forecast_body text_column 100 = Raises TypeError
   \<and> get_base_forecast (Some [''TCS.NS'' \<mapsto> text_column]) ''tcs'' 100
       = Returns (forecast_fallback 100)
   \<and> topology_body failing_solver example_graph (Some [[0, 0.7], [0.7, 0]])
         [''TCS'', ''INFY''] ''tcs'' = Raises LinAlgError
   \<and> compute_laplacian_risk failing_solver (load_graph_data (Some example_graph)) ''tcs''
       = Returns topology_default
   \<and> sentiment_body (JObj [(''news'', JNull)]) = Raises AttributeError
   \<and> get_sentiment_multiplier (Some (JObj [(''news'', JNull)])) = Returns sentiment_default"
  using analyzers_never_raise [of "Some [''TCS.NS'' \<mapsto> text_column]" "''tcs''" 100
          failing_solver "load_graph_data (Some example_graph)"
          "Some (JObj [(''news'', JNull)])"]
        text_column_raises failing_solver_raises null_news_raises
  by (simp add: upper_tcs example_agent)

section \<open>The technical forecast and its indicators\<close>

lemma dropna_map_Some [simp]: "dropna (map Some xs) = xs"
  by (induction xs) simp_all

lemma np_returns_simple:
  "map (\<lambda>(a, b). a / b) (zip (np_diff ps) (butlast ps)) = simple_returns ps"
proof (rule nth_equalityI)
  show "length (map (\<lambda>(a, b). a / b) (zip (np_diff ps) (butlast ps)))
          = length (simple_returns ps)"
    by (simp add: np_diff_def simple_returns_def)
next
  fix i
  assume "i < length (map (\<lambda>(a, b). a / b) (zip (np_diff ps) (butlast ps)))"
  then have "i < length ps - 1" by (simp add: np_diff_def)
  then show "map (\<lambda>(a, b). a / b) (zip (np_diff ps) (butlast ps)) ! i = simple_returns ps ! i"
    by (simp add: np_diff_def simple_returns_def nth_butlast nth_tl)
qed

lemma np_std_std_dev: "np_std xs = std_dev xs"
  by (simp add: np_std_def std_dev_def np_mean_def Let_def)

lemma np_mean_last_n: "n \<le> length ps \<Longrightarrow> np_mean (last_n n ps) = sma n ps"
  by (simp add: np_mean_def last_n_def sma_def)

lemma technical_forecast_spec:
  assumes "20 \<le> length ps" "0 \<notin> set (butlast ps)" "sma 20 ps \<noteq> 0" "sma 5 ps \<noteq> 0"
  shows "technical_forecast ps cp =
     Returns (forecast_of_indicators cp (std_dev (simple_returns ps))
                (spec_trend ps) (spec_momentum ps))"
proof -
  have s5: "np_mean (last_n 5 ps) = sma 5 ps"
    using assms(1) by (simp add: np_mean_last_n)
  have s20: "np_mean (last_n 20 ps) = sma 20 ps"
    using assms(1) by (simp add: np_mean_last_n)
  show ?thesis
    using assms(2-4)
    by (simp add: technical_forecast_def np_div_list_def np_div_def np_returns_simple
          np_std_std_dev s5 s20 Let_def spec_trend_def spec_momentum_def)
qed

lemma zigzag_returns:
  "simple_returns zigzag_prices =
     [1/10, -1/11, 1/10, -1/11, 1/10, -1/11, 1/10, -1/11, 1/10, -1/11,
      1/10, -1/11, 1/10, -1/11, 1/10, -1/11, 1/10, -1/11, 1/10, -1/11]"
  by (simp add: simple_returns_def zigzag_prices_def upt_rec numeral_eq_Suc)

lemma zigzag_std: "std_dev (simple_returns zigzag_prices) = 21 / 220"
proof -
  have "std_dev (simple_returns zigzag_prices) = sqrt ((21 / 220)\<^sup>2)"
    by (simp add: zigzag_returns std_dev_def Let_def power2_eq_square)
  then show ?thesis by simp
qed

lemma zigzag_sma20: "sma 20 zigzag_prices = 105"
  by (simp add: sma_def zigzag_prices_def)

lemma zigzag_sma5: "sma 5 zigzag_prices = 104"
  by (simp add: sma_def zigzag_prices_def)

lemma zigzag_trend: "spec_trend zigzag_prices = - (1 / 105)"
  by (simp add: spec_trend_def zigzag_sma20 zigzag_sma5)

lemma zigzag_momentum: "spec_momentum zigzag_prices = - (1 / 26)"
  by (simp add: spec_momentum_def zigzag_sma5) (simp add: zigzag_prices_def)

lemma zigzag_forecast:
  "forecast_of_indicators 100 (21 / 220) (- (1 / 105)) (- (1 / 26)) =
     \<lparr> base_price = 100, predicted_price = 99.52, direction = ''SIDEWAYS'', confidence = 88.1,
       volatility = 9.55, trend_strength = 0.95, method_tag = ''lstm_technical'' \<rparr>"
  by (simp add: forecast_of_indicators_def Let_def py_round_def py_round_int_def)

lemma zigzag_series:
  "available_series (Some zigzag_table) ''zig'' = Some (NumCol (map Some zigzag_prices))"
  by (simp add: available_series_def zigzag_table_def upper_def upper_char_def)

lemma zigzag_nonzero: "0 \<notin> set (butlast zigzag_prices)"
  by (simp add: zigzag_prices_def)

lemma zigzag_length: "length zigzag_prices = 21"
  by (simp add: zigzag_prices_def)

text \<open>
  C7, as stated, fails: for the series that alternates between 100 and 110 (21
  observations) the standard deviation of the simple returns is 21/220, about 0.0955,
  and the \<^verbatim>\<open>volatility\<close> field returned is 9.55.
\<close>

theorem volatility_field_counterexample:
  "get_base_forecast (Some zigzag_table) ''zig'' 100 =
     Returns \<lparr> base_price = 100, predicted_price = 99.52, direction = ''SIDEWAYS'',
       confidence = 88.1, volatility = 9.55, trend_strength = 0.95,
       method_tag = ''lstm_technical'' \<rparr>
   \<and> length zigzag_prices = 21
   \<and> std_dev (simple_returns zigzag_prices) = 21 / 220
   \<and> (9.55 :: real) \<noteq> 21 / 220"
proof -
  have "technical_forecast zigzag_prices 100 =
     Returns (forecast_of_indicators 100 (21 / 220) (- (1 / 105)) (- (1 / 26)))"
    using technical_forecast_spec [of zigzag_prices 100]
    by (simp add: zigzag_length zigzag_nonzero zigzag_sma20 zigzag_sma5 zigzag_std
          zigzag_trend zigzag_momentum)
  then have "get_base_forecast (Some zigzag_table) ''zig'' 100 =
     Returns (forecast_of_indicators 100 (21 / 220) (- (1 / 105)) (- (1 / 26)))"
    using zigzag_series
    by (simp add: get_base_forecast_def available_series_def forecast_body_def Let_def
          zigzag_length try_except_def)
  then show ?thesis by (simp add: zigzag_length zigzag_std zigzag_forecast)
qed

text \<open>
  C7, amended. For a numeric series with at least 20 observations in which no division
  is by zero (no price before the last is 0, neither moving average is 0),
  \<^verbatim>\<open>get_base_forecast\<close> returns the forecast built from the standard deviation of the
  simple returns, the trend (SMA5 - SMA20)/SMA20 and the momentum (last price - SMA5)/SMA5;
  its \<^verbatim>\<open>volatility\<close> field is that standard deviation times 100, rounded to two decimals.
\<close>

theorem technical_forecast_indicators:
  assumes "available_series md symb = Some (NumCol cells)"
    and "20 \<le> length (dropna cells)"
    and "0 \<notin> set (butlast (dropna cells))"
    and "sma 20 (dropna cells) \<noteq> 0" and "sma 5 (dropna cells) \<noteq> 0"
  shows "get_base_forecast md symb cur_price =
           Returns (forecast_of_indicators cur_price (std_dev (simple_returns (dropna cells)))
                      (spec_trend (dropna cells)) (spec_momentum (dropna cells)))
         \<and> volatility (forecast_of_indicators cur_price
                          (std_dev (simple_returns (dropna cells)))
                          (spec_trend (dropna cells)) (spec_momentum (dropna cells)))
           = py_round (std_dev (simple_returns (dropna cells)) * 100) 2"
proof -
  from assms(1) obtain df
    where md: "md = Some df" "df (upper symb @ ''.NS'') = Some (NumCol cells)"
    by (auto simp: available_series_def split: option.splits)
  have "forecast_body (NumCol cells) cur_price =
     Returns (forecast_of_indicators cur_price (std_dev (simple_returns (dropna cells)))
                (spec_trend (dropna cells)) (spec_momentum (dropna cells)))"
    using assms(2) technical_forecast_spec [OF assms(2-5)]
    by (simp add: forecast_body_def Let_def)
  with md show ?thesis
    by (simp add: get_base_forecast_def Let_def try_except_def forecast_of_indicators_def
             split: prod.splits)
qed

theorem technical_forecast_indicators_witness:
  "available_series (Some zigzag_table) ''zig'' = Some (NumCol (map Some zigzag_prices))
   \<and> 20 \<le> length (dropna (map Some zigzag_prices))
   \<and> 0 \<notin> set (butlast (dropna (map Some zigzag_prices)))
   \<and> sma 20 (dropna (map Some zigzag_prices)) \<noteq> 0
   \<and> sma 5 (dropna (map Some zigzag_prices)) \<noteq> 0
   \<and> get_base_forecast (Some zigzag_table) ''zig'' 100 =
       Returns (forecast_of_indicators 100 (21 / 220) (- (1 / 105)) (- (1 / 26)))
   \<and> volatility (forecast_of_indicators 100 (21 / 220) (- (1 / 105)) (- (1 / 26)))
       = py_round (21 / 220 * 100) 2"
  using technical_forecast_indicators
          [of "Some zigzag_table" "''zig''" "map Some zigzag_prices" 100]
  by (simp add: zigzag_series zigzag_length zigzag_nonzero zigzag_sma20 zigzag_sma5 zigzag_std
        zigzag_trend zigzag_momentum)

section \<open>The adjacency matrix of a loaded graph\<close>

lemma py_round_nonneg: "0 \<le> x \<Longrightarrow> 0 \<le> py_round x n"
  using py_round_ge [of 0 n x] by simp

lemma py_round_le_one: "x \<le> 1 \<Longrightarrow> py_round x n \<le> 1"
  using py_round_le [of x "10 ^ n" n] by simp

lemma py_round_ge_one: "1 \<le> x \<Longrightarrow> 1 \<le> py_round x n"
  using py_round_ge [of "10 ^ n" n x] by simp


lemma index_of_less: "x \<in> set xs \<Longrightarrow> index_of xs x < length xs"
  by (induction xs) auto

lemma index_of_neq: "b \<in> set xs \<Longrightarrow> a \<noteq> b \<Longrightarrow> index_of xs a \<noteq> index_of xs b"
  by (induction xs) auto

lemma length_set_entry [simp]: "length (set_entry m i j v) = length m"
  by (simp add: set_entry_def)

lemma length_row_set_entry [simp]: "length (set_entry m i j v ! k) = length (m ! k)"
  by (cases "i < length m"; cases "k = i") (simp_all add: set_entry_def list_update_beyond)

lemma set_entry_diag: "i \<noteq> j \<Longrightarrow> set_entry m i j v ! k ! k = m ! k ! k"
  by (cases "i < length m"; cases "k = i") (simp_all add: set_entry_def list_update_beyond)

text \<open>
  The matrix stays square with a zero diagonal while the links (none from a node to itself)
  or the groups are entered.
\<close>

lemma link_step_inv:
  assumes "length m = n" "\<forall>k<n. length (m ! k) = n \<and> m ! k ! k = 0"
    and "link_source l = None \<or> link_source l \<noteq> link_target l"
  shows "length (link_step ns m l) = n \<and> (\<forall>k<n. length (link_step ns m l ! k) = n \<and> link_step ns m l ! k ! k = 0)"
proof (cases "\<exists>s t. link_source l = Some s \<and> link_target l = Some t \<and> s \<in> set ns \<and> t \<in> set ns")
  case True
  then obtain s t where st: "link_source l = Some s" "link_target l = Some t" "s \<in> set ns" "t \<in> set ns"
    by blast
  with assms(3) have "s \<noteq> t" by auto
  with st have ne: "index_of ns s \<noteq> index_of ns t" by (simp add: index_of_neq)
  then have ne': "index_of ns t \<noteq> index_of ns s" by simp
  show ?thesis using assms(1,2) st
    by (simp add: link_step_def Let_def set_entry_diag [OF ne] set_entry_diag [OF ne'])
next
  case False
  then show ?thesis using assms(1,2)
    by (auto simp: link_step_def split: option.splits)
qed

lemma foldl_link_step_inv:
  assumes "\<forall>l\<in>set ls. link_source l = None \<or> link_source l \<noteq> link_target l"
    and "length m = n" "\<forall>k<n. length (m ! k) = n \<and> m ! k ! k = 0"
  shows "length (foldl (link_step ns) m ls) = n
         \<and> (\<forall>k<n. length (foldl (link_step ns) m ls ! k) = n \<and> foldl (link_step ns) m ls ! k ! k = 0)"
  using assms
proof (induction ls arbitrary: m)
  case Nil
  then show ?case by simp
next
  case (Cons l ls)
  have "length (link_step ns m l) = n \<and> (\<forall>k<n. length (link_step ns m l ! k) = n \<and> link_step ns m l ! k ! k = 0)"
    using Cons.prems by (intro link_step_inv) auto
  with Cons.IH [of "link_step ns m l"] Cons.prems(1) show ?case by simp
qed

lemma group_step_inv:
  assumes "length m = n" "\<forall>k<n. length (m ! k) = n \<and> m ! k ! k = 0"
  shows "length (group_step ns nd m other) = n
         \<and> (\<forall>k<n. length (group_step ns nd m other ! k) = n \<and> group_step ns nd m other ! k ! k = 0)"
proof (cases "node_id other \<in> set ns \<and> node_id other \<noteq> node_id nd")
  case True
  then have ne: "index_of ns (node_id nd) \<noteq> index_of ns (node_id other)"
    by (intro index_of_neq) auto
  show ?thesis using assms True
    by (simp add: group_step_def Let_def set_entry_diag [OF ne])
next
  case False
  then show ?thesis using assms by (auto simp: group_step_def)
qed

lemma foldl_group_step_inv:
  assumes "length m = n" "\<forall>k<n. length (m ! k) = n \<and> m ! k ! k = 0"
  shows "length (foldl (group_step ns nd) m others) = n
         \<and> (\<forall>k<n. length (foldl (group_step ns nd) m others ! k) = n
                   \<and> foldl (group_step ns nd) m others ! k ! k = 0)"
  using assms
proof (induction others arbitrary: m)
  case Nil
  then show ?case by simp
next
  case (Cons other others)
  from group_step_inv [OF Cons.prems, of ns nd other]
  show ?case using Cons.IH [of "group_step ns nd m other"] by simp
qed

lemma node_step_inv:
  assumes "length m = n" "\<forall>k<n. length (m ! k) = n \<and> m ! k ! k = 0"
  shows "length (node_step ns all m nd) = n
         \<and> (\<forall>k<n. length (node_step ns all m nd ! k) = n \<and> node_step ns all m nd ! k ! k = 0)"
  using foldl_group_step_inv [OF assms] assms by (simp add: node_step_def)

lemma foldl_node_step_inv:
  assumes "length m = n" "\<forall>k<n. length (m ! k) = n \<and> m ! k ! k = 0"
  shows "length (foldl (node_step ns all) m nds) = n
         \<and> (\<forall>k<n. length (foldl (node_step ns all) m nds ! k) = n
                   \<and> foldl (node_step ns all) m nds ! k ! k = 0)"
  using assms
proof (induction nds arbitrary: m)
  case Nil
  then show ?case by simp
next
  case (Cons nd nds)
  from node_step_inv [OF Cons.prems, of ns all nd]
  show ?case using Cons.IH [of "node_step ns all m nd"] by simp
qed

lemma build_adjacency_matrix_inv:
  assumes "\<forall>l\<in>set (graph_links g). link_source l = None \<or> link_source l \<noteq> link_target l"
  shows "length (build_adjacency_matrix g ns) = length ns
         \<and> (\<forall>k<length ns. length (build_adjacency_matrix g ns ! k) = length ns
                   \<and> build_adjacency_matrix g ns ! k ! k = 0)"
proof -
  let ?z = "replicate (length ns) (replicate (length ns) (0::real))"
  have z: "length ?z = length ns" "\<forall>k<length ns. length (?z ! k) = length ns \<and> ?z ! k ! k = 0"
    by simp_all
  show ?thesis
    using foldl_link_step_inv [OF assms z] foldl_node_step_inv [OF z]
    by (simp add: build_adjacency_matrix_def Let_def)
qed

section \<open>Bounds of the topology result\<close>

lemma degree_centrality_nonneg:
  "degree_centrality adj ns i = Returns x \<Longrightarrow> 0 \<le> x"
  by (auto simp: degree_centrality_def list_get_def Let_def bind_outcome_Returns_iff
           split: option.splits if_splits)

lemma degree_centrality_le_one:
  assumes "degree_centrality (Some a) ns i = Returns x"
    and "i < length ns" "length (a ! i) = length ns" "a ! i ! i = 0"
  shows "x \<le> 1"
proof -
  let ?row = "a ! i"
  from assms(2,3) have "?row ! i \<in> set ?row" by (intro nth_mem) simp
  moreover from assms(4) have "\<not> ?row ! i > 0" by simp
  ultimately have "length (filter (\<lambda>w. w > 0) ?row) < length ?row"
    by (rule length_filter_less)
  with assms(3) have deg: "length (filter (\<lambda>w. w > 0) ?row) \<le> length ns - 1" by simp
  from assms(1) have x: "x = (if int (length ns) - 1 > 0
        then real (length (filter (\<lambda>w. w > 0) ?row)) / real_of_int (int (length ns) - 1) else 0)"
    by (auto simp: degree_centrality_def list_get_def Let_def bind_outcome_Returns_iff
           split: if_splits)
  show ?thesis
  proof (cases "int (length ns) - 1 > 0")
    case True
    then have "real_of_int (int (length ns) - 1) = real (length ns - 1)" by simp
    moreover from True have "0 < real (length ns - 1)" by simp
    moreover from deg have "real (length (filter (\<lambda>w. w > 0) ?row)) \<le> real (length ns - 1)"
      by simp
    ultimately show ?thesis using x True by (simp add: divide_le_eq)
  next
    case False
    with x show ?thesis by simp
  qed
qed

lemma laplacian_contagion_le_one:
  "laplacian_contagion eigvalsh adj = Returns c \<Longrightarrow> c \<le> 1"
  by (auto simp: laplacian_contagion_def Let_def split: option.splits)

lemma laplacian_contagion_nonneg:
  assumes "laplacian_contagion eigvalsh adj = Returns c"
    and "\<forall>a evs. adj = Some a \<and> eigvalsh (laplacian a) = Some evs
            \<longrightarrow> (\<forall>v\<in>set evs. 0 \<le> v)"
  shows "0 \<le> c"
proof (cases adj)
  case None
  with assms(1) show ?thesis by (simp add: laplacian_contagion_def)
next
  case (Some a)
  with assms(1) obtain evs where evs: "eigvalsh (laplacian a) = Some evs"
    and c: "c = min ((if length evs > 1 then sort evs ! 1 else 0) / 10) 1"
    by (auto simp: laplacian_contagion_def Let_def split: option.splits)
  have "0 \<le> (if length evs > 1 then sort evs ! 1 else 0)"
  proof (cases "length evs > 1")
    case True
    then have "sort evs ! 1 \<in> set (sort evs)" by (intro nth_mem) simp
    then have "sort evs ! 1 \<in> set evs" by simp
    with assms(2) evs Some show ?thesis by auto
  next
    case False
    then show ?thesis by simp
  qed
  with c show ?thesis by simp
qed

lemma neighbor_loop_length:
  "neighbor_loop g ns acc idxs = Returns out \<Longrightarrow> length out \<le> length acc + length idxs"
proof (induction idxs arbitrary: acc)
  case Nil
  then show ?case by simp
next
  case (Cons i idxs)
  from Cons.prems obtain acc' where s: "neighbor_step g ns acc i = Returns acc'"
    and l: "neighbor_loop g ns acc' idxs = Returns out"
    by (auto simp: bind_outcome_Returns_iff)
  from s obtain sy where sy:
      "(case find (\<lambda>n_data. node_id n_data = sy) (graph_nodes g) of
         None \<Rightarrow> Returns acc
       | Some n_data \<Rightarrow>
           (let score = (case risk_score n_data of None \<Rightarrow> 0.5 | Some r \<Rightarrow> r);
                signal = (if score < 0.4 then ''bullish'' else ''bearish'')
            in Returns (acc @ [\<lparr> ns_symbol = sy, ns_signal = signal,
                                 ns_risk_score = score \<rparr>]))) = Returns acc'"
    unfolding neighbor_step_def bind_outcome_Returns_iff by blast
  have "length acc' \<le> Suc (length acc)"
  proof (cases "find (\<lambda>n_data. node_id n_data = sy) (graph_nodes g)")
    case None
    with sy show ?thesis by simp
  next
    case (Some n_data)
    with sy show ?thesis by (auto simp: Let_def)
  qed
  with Cons.IH [OF l] show ?case by simp
qed

lemma collect_neighbor_signals_length:
  "collect_neighbor_signals g adj ns i = Returns signals \<Longrightarrow> length signals \<le> 5"
proof (cases adj)
  case None
  assume "collect_neighbor_signals g adj ns i = Returns signals"
  with None show ?thesis by (simp add: collect_neighbor_signals_def)
next
  case (Some a)
  assume "collect_neighbor_signals g adj ns i = Returns signals"
  with Some obtain row where "neighbor_loop g ns [] (take 5 (positive_indices row)) = Returns signals"
    by (auto simp: collect_neighbor_signals_def bind_outcome_Returns_iff)
  from neighbor_loop_length [OF this] show ?thesis by simp
qed

lemma risk_penalty_of_upper:
  assumes "c \<le> 1" "length signals \<le> 5"
  shows "risk_penalty_of r c signals \<le> 0.2"
proof -
  have b: "real (length (filter (\<lambda>s. ns_signal s = ''bearish'') signals)) \<le> 5"
    using assms(2) length_filter_le [of "\<lambda>s. ns_signal s = ''bearish''" signals] by linarith
  show ?thesis using assms(1) b
    by (auto simp: risk_penalty_of_def Let_def)
qed

lemma risk_penalty_of_nonneg: "0 \<le> c \<Longrightarrow> 0 \<le> risk_penalty_of r c signals"
  by (auto simp: risk_penalty_of_def Let_def)

lemma topology_body_fields:
  assumes "topology_body eigvalsh g adj ns symb = Returns t"
  shows "t = topology_default
       \<or> (\<exists>cen con signals.
            degree_centrality adj ns (index_of ns (upper symb)) = Returns cen
            \<and> laplacian_contagion eigvalsh adj = Returns con
            \<and> collect_neighbor_signals g adj ns (index_of ns (upper symb)) = Returns signals
            \<and> network_risk_penalty t = py_round (risk_penalty_of (cluster_risk t) con signals) 4
            \<and> risk_adjustment t = py_round (1 - risk_penalty_of (cluster_risk t) con signals) 4
            \<and> centrality_score t = py_round cen 3
            \<and> contagion_risk t = py_round con 3)"
proof (cases "find (\<lambda>n. node_id n = upper symb) (graph_nodes g)")
  case None
  with assms show ?thesis by (simp add: topology_body_def)
next
  case (Some node_data)
  obtain c_name c_risk where fc: "find_cluster g (upper symb) = (c_name, c_risk)"
    by (cases "find_cluster g (upper symb)") auto
  from assms Some fc obtain cen con signals
    where "degree_centrality adj ns (index_of ns (upper symb)) = Returns cen"
      and "laplacian_contagion eigvalsh adj = Returns con"
      and "collect_neighbor_signals g adj ns (index_of ns (upper symb)) = Returns signals"
      and "t = \<lparr> network_risk_penalty = py_round (risk_penalty_of c_risk con signals) 4,
                 risk_adjustment = py_round (1 - risk_penalty_of c_risk con signals) 4,
                 centrality_score = py_round cen 3,
                 cluster_name = c_name, cluster_risk = c_risk,
                 neighbor_signals = signals,
                 contagion_risk = py_round con 3 \<rparr>"
    by (auto simp: topology_body_def Let_def bind_outcome_Returns_iff)
  then show ?thesis by auto
qed

lemma compute_laplacian_risk_cases:
  assumes "compute_laplacian_risk eigvalsh agent symb = Returns t"
  shows "t = topology_default
       \<or> (\<exists>g. graph_data agent = Some g \<and> upper symb \<in> set (nodes agent)
              \<and> topology_body eigvalsh g (adjacency_matrix agent) (nodes agent) symb = Returns t)"
  using assms
  by (auto simp: compute_laplacian_risk_def try_except_Returns_iff split: option.splits if_splits)

lemma round4_adjustment:
  assumes "p \<le> 0.2"
  shows "0.8 \<le> py_round (1 - p) 4"
proof -
  have "of_int 8000 / 10 ^ 4 \<le> 1 - p" using assms by simp
  from py_round_ge [OF this] show ?thesis by simp
qed

lemma risk_adjustment_positive:
  assumes "compute_laplacian_risk eigvalsh agent symb = Returns t"
  shows "0.8 \<le> risk_adjustment t"
proof -
  from compute_laplacian_risk_cases [OF assms]
  consider "t = topology_default"
    | g where "topology_body eigvalsh g (adjacency_matrix agent) (nodes agent) symb = Returns t"
              "t \<noteq> topology_default"
    by blast
  then show ?thesis
  proof cases
    case 1
    then show ?thesis by (simp add: topology_default_def)
  next
    case 2
    from topology_body_fields [OF 2(1)] 2(2) obtain con signals
      where con: "laplacian_contagion eigvalsh (adjacency_matrix agent) = Returns con"
        and sig: "collect_neighbor_signals g (adjacency_matrix agent) (nodes agent)
                    (index_of (nodes agent) (upper symb)) = Returns signals"
        and ra: "risk_adjustment t = py_round (1 - risk_penalty_of (cluster_risk t) con signals) 4"
      by blast
    have "risk_penalty_of (cluster_risk t) con signals \<le> 0.2"
      using laplacian_contagion_le_one [OF con] collect_neighbor_signals_length [OF sig]
      by (rule risk_penalty_of_upper)
    from round4_adjustment [OF this] ra show ?thesis by simp
  qed
qed

section \<open>Bounds of the forecast and of the sentiment\<close>

lemma std_dev_nonneg: "0 \<le> std_dev xs"
proof -
  have "0 \<le> sum_list (map (\<lambda>x. (x - m)\<^sup>2) xs)" for m :: real
    by (rule sum_list_nonneg) auto
  then show ?thesis by (simp add: std_dev_def Let_def)
qed

lemma np_std_nonneg: "0 \<le> np_std xs"
  by (simp add: np_std_std_dev std_dev_nonneg)

lemma forecast_of_indicators_bounds:
  assumes "0 \<le> vol"
  shows "0 \<le> confidence (forecast_of_indicators cp vol trend mom)
       \<and> confidence (forecast_of_indicators cp vol trend mom) \<le> 100
       \<and> 0 \<le> volatility (forecast_of_indicators cp vol trend mom)
       \<and> 0 \<le> trend_strength (forecast_of_indicators cp vol trend mom)
       \<and> trend_strength (forecast_of_indicators cp vol trend mom) \<le> 1"
proof -
  let ?s = "min (\<bar>trend\<bar> * 100) 1"
  have s: "0 \<le> ?s" "?s \<le> 1" by simp_all
  have lo: "of_int 500 / 10 ^ 1 \<le> 50 + ?s * 40" using s by simp
  have hi: "50 + ?s * 40 \<le> of_int 900 / 10 ^ 1" using s by simp
  have c: "50 \<le> py_round (50 + ?s * 40) 1" "py_round (50 + ?s * 40) 1 \<le> 90"
    using py_round_ge [OF lo] py_round_le [OF hi] by simp_all
  have v: "0 \<le> py_round (vol * 100) 2" using assms by (simp add: py_round_nonneg)
  have t: "0 \<le> py_round ?s 2" "py_round ?s 2 \<le> 1"
    using s by (simp_all add: py_round_nonneg py_round_le_one)
  have f: "confidence (forecast_of_indicators cp vol trend mom) = py_round (50 + ?s * 40) 1"
      "volatility (forecast_of_indicators cp vol trend mom) = py_round (vol * 100) 2"
      "trend_strength (forecast_of_indicators cp vol trend mom) = py_round ?s 2"
    by (simp_all add: forecast_of_indicators_def Let_def split: prod.splits)
  show ?thesis using c v t unfolding f by linarith
qed

lemma technical_forecast_form:
  assumes "technical_forecast ps cp = Returns f"
  shows "\<exists>rs trend mom. f = forecast_of_indicators cp (np_std rs) trend mom"
  using assms
  by (auto simp: technical_forecast_def Let_def bind_outcome_Returns_iff)

lemma get_base_forecast_cases:
  assumes "get_base_forecast md symb cp = Returns f"
  shows "f = forecast_fallback cp \<or> (\<exists>ps. technical_forecast ps cp = Returns f)"
  using assms
  by (auto simp: get_base_forecast_def forecast_body_def Let_def try_except_Returns_iff
           split: option.splits column.splits if_splits)

lemma get_base_forecast_bounds:
  assumes "get_base_forecast md symb cp = Returns f"
  shows "0 \<le> confidence f \<and> confidence f \<le> 100 \<and> 0 \<le> volatility f
         \<and> 0 \<le> trend_strength f \<and> trend_strength f \<le> 1"
proof (cases "f = forecast_fallback cp")
  case True
  then show ?thesis by (simp add: forecast_fallback_def)
next
  case False
  with get_base_forecast_cases [OF assms] obtain ps where "technical_forecast ps cp = Returns f"
    by blast
  from technical_forecast_form [OF this] obtain rs trend mom
    where "f = forecast_of_indicators cp (np_std rs) trend mom" by blast
  then show ?thesis using forecast_of_indicators_bounds [OF np_std_nonneg] by simp
qed

lemma round2_half: "py_round (1 / 2) 2 = 1 / 2" "py_round (- (1 / 2)) 2 = - (1 / 2)"
  "py_round 0 2 = 0" "py_round (3 / 4) 2 = 3 / 4" "py_round (1 / 4) 2 = 1 / 4"
  by (simp_all add: py_round_def py_round_int_def Let_def)

lemma sentiment_body_fields:
  assumes "sentiment_body j = Returns r"
  shows "(consensus_score r = 1 / 2 \<and> bull_bear_ratio r = 3 / 4
          \<or> consensus_score r = - (1 / 2) \<and> bull_bear_ratio r = 1 / 4
          \<or> consensus_score r = 0 \<and> bull_bear_ratio r = 1 / 2)
         \<and> payload_confidence j = Returns (sentiment_confidence r)"
  using assms
  by (auto simp: sentiment_body_def payload_confidence_def bind_outcome_Returns_iff Let_def
        round2_half split: if_splits)

lemma get_sentiment_multiplier_bounds:
  assumes "get_sentiment_multiplier sd = Returns r"
  shows "- 1 \<le> consensus_score r \<and> consensus_score r \<le> 1
       \<and> 0 \<le> bull_bear_ratio r \<and> bull_bear_ratio r \<le> 1
       \<and> (sentiment_confidence r = 50
          \<or> (\<exists>j. sd = Some j \<and> payload_confidence j = Returns (sentiment_confidence r)))"
proof (cases "r = sentiment_default")
  case True
  then show ?thesis by (simp add: sentiment_default_def)
next
  case False
  with get_sentiment_multiplier_cases [OF assms]
  obtain j where j: "sd = Some j" "sentiment_body j = Returns r" by blast
  from sentiment_body_fields [OF j(2)] j(1) show ?thesis by auto
qed

section \<open>Every bounded field\<close>

lemma load_graph_data_inv:
  assumes "agent = load_graph_data gfile" "\<forall>g. gfile = Some g \<longrightarrow> no_self_links g"
    and "adjacency_matrix agent = Some a"
  shows "\<forall>k<length (nodes agent). length (a ! k) = length (nodes agent) \<and> a ! k ! k = 0"
proof (cases gfile)
  case None
  with assms(1,3) show ?thesis by (simp add: load_graph_data_def)
next
  case (Some g)
  with assms(2) have "\<forall>l\<in>set (graph_links g). link_source l = None \<or> link_source l \<noteq> link_target l"
    by (simp add: no_self_links_def list_all_iff)
  from build_adjacency_matrix_inv [OF this, of "map node_id (graph_nodes g)"] assms(1,3) Some
  show ?thesis by (simp add: load_graph_data_def Let_def)
qed

lemma loaded_centrality_le_one:
  assumes "compute_laplacian_risk eigvalsh (load_graph_data gfile) symb = Returns t"
    and "\<forall>g. gfile = Some g \<longrightarrow> no_self_links g"
  shows "0 \<le> centrality_score t \<and> centrality_score t \<le> 1"
proof -
  let ?agent = "load_graph_data gfile"
  from compute_laplacian_risk_cases [OF assms(1)]
  consider "t = topology_default"
    | g where "upper symb \<in> set (nodes ?agent)"
              "topology_body eigvalsh g (adjacency_matrix ?agent) (nodes ?agent) symb = Returns t"
              "t \<noteq> topology_default"
    by blast
  then show ?thesis
  proof cases
    case 1
    then show ?thesis by (simp add: topology_default_def)
  next
    case 2
    let ?i = "index_of (nodes ?agent) (upper symb)"
    from topology_body_fields [OF 2(2)] 2(3) obtain cen
      where cen: "degree_centrality (adjacency_matrix ?agent) (nodes ?agent) ?i = Returns cen"
        and cs: "centrality_score t = py_round cen 3"
      by blast
    have i: "?i < length (nodes ?agent)" using 2(1) by (rule index_of_less)
    have "cen \<le> 1"
    proof (cases "adjacency_matrix ?agent")
      case None
      with cen show ?thesis by (simp add: degree_centrality_def)
    next
      case (Some a)
      from load_graph_data_inv [OF refl assms(2) Some] i
      have "length (a ! ?i) = length (nodes ?agent)" "a ! ?i ! ?i = 0" by simp_all
      with cen Some i show ?thesis by (intro degree_centrality_le_one [of a]) simp_all
    qed
    moreover have "0 \<le> cen" using cen by (rule degree_centrality_nonneg)
    ultimately show ?thesis using cs by (simp add: py_round_nonneg py_round_le_one)
  qed
qed

lemma contagion_bounds:
  assumes "compute_laplacian_risk eigvalsh agent symb = Returns t"
  shows "contagion_risk t \<le> 1
       \<and> ((\<forall>a evs. adjacency_matrix agent = Some a \<and> eigvalsh (laplacian a) = Some evs
               \<longrightarrow> (\<forall>v\<in>set evs. 0 \<le> v))
            \<longrightarrow> 0 \<le> contagion_risk t \<and> 0 \<le> network_risk_penalty t \<and> risk_adjustment t \<le> 1)"
proof -
  from compute_laplacian_risk_cases [OF assms]
  consider "t = topology_default"
    | g where "topology_body eigvalsh g (adjacency_matrix agent) (nodes agent) symb = Returns t"
              "t \<noteq> topology_default"
    by blast
  then show ?thesis
  proof cases
    case 1
    then show ?thesis by (simp add: topology_default_def)
  next
    case 2
    from topology_body_fields [OF 2(1)] 2(2) obtain con signals
      where con: "laplacian_contagion eigvalsh (adjacency_matrix agent) = Returns con"
        and np: "network_risk_penalty t = py_round (risk_penalty_of (cluster_risk t) con signals) 4"
        and ra: "risk_adjustment t = py_round (1 - risk_penalty_of (cluster_risk t) con signals) 4"
        and cr: "contagion_risk t = py_round con 3"
      by blast
    have le: "contagion_risk t \<le> 1"
      using laplacian_contagion_le_one [OF con] cr by (simp add: py_round_le_one)
    have nn: "0 \<le> contagion_risk t \<and> 0 \<le> network_risk_penalty t \<and> risk_adjustment t \<le> 1"
      if "\<forall>a evs. adjacency_matrix agent = Some a \<and> eigvalsh (laplacian a) = Some evs
            \<longrightarrow> (\<forall>v\<in>set evs. 0 \<le> v)"
    proof -
      have c0: "0 \<le> con" using con that by (rule laplacian_contagion_nonneg)
      then have p0: "0 \<le> risk_penalty_of (cluster_risk t) con signals"
        by (rule risk_penalty_of_nonneg)
      then have "1 - risk_penalty_of (cluster_risk t) con signals \<le> 1" by simp
      with c0 p0 cr np ra show ?thesis by (simp add: py_round_nonneg py_round_le_one)
    qed
    from le nn show ?thesis by blast
  qed
qed

text \<open>
  The sentiment and the topology agent always return a result of finite numbers; the quant
  agent does so exactly when its series makes no division by zero.
\<close>

lemma list_get_not_special: "list_get xs i \<noteq> FloatSpecial"
  by (simp add: list_get_def)

lemma neighbor_step_not_special: "neighbor_step g ns acc i \<noteq> FloatSpecial"
  by (auto simp: neighbor_step_def bind_outcome_Special_iff list_get_def Let_def
           split: option.splits)

lemma neighbor_loop_not_special: "neighbor_loop g ns acc is \<noteq> FloatSpecial"
  by (induction "is" arbitrary: acc)
     (auto simp: bind_outcome_Special_iff neighbor_step_not_special)

lemma topology_body_not_special: "topology_body eigvalsh g adj ns symb \<noteq> FloatSpecial"
  by (auto simp: topology_body_def degree_centrality_def laplacian_contagion_def
        collect_neighbor_signals_def bind_outcome_Special_iff list_get_def Let_def
        neighbor_loop_not_special
      split: option.splits prod.splits)

lemma compute_laplacian_risk_returns:
  "\<exists>t. compute_laplacian_risk eigvalsh agent symb = Returns t"
proof (cases "topology_body eigvalsh (the (graph_data agent)) (adjacency_matrix agent)
               (nodes agent) symb")
  case (Returns t)
  then show ?thesis
    by (auto simp: compute_laplacian_risk_def try_except_def split: option.splits)
next
  case (Raises e)
  then show ?thesis
    by (auto simp: compute_laplacian_risk_def try_except_def split: option.splits)
next
  case FloatSpecial
  with topology_body_not_special show ?thesis by blast
qed

lemma get_base_forecast_returns:
  assumes "\<forall>col. available_series md symb = Some col \<longrightarrow> \<not> divides_by_zero col"
  shows "\<exists>f. get_base_forecast md symb cp = Returns f"
proof (cases "available_series md symb")
  case None
  then show ?thesis
    by (auto simp: get_base_forecast_def available_series_def Let_def split: option.splits)
next
  case (Some col)
  with assms have ndz: "\<not> divides_by_zero col" by simp
  from Some obtain df where md: "md = Some df" "df (upper symb @ ''.NS'') = Some col"
    by (auto simp: available_series_def split: option.splits)
  have "\<exists>f. forecast_body col cp = Returns f \<or> (\<exists>e. forecast_body col cp = Raises e)"
  proof (cases col)
    case (NumCol cells)
    show ?thesis
    proof (cases "20 \<le> length (dropna cells)")
      case True
      with ndz NumCol have "0 \<notin> set (butlast (dropna cells))" "sma 20 (dropna cells) \<noteq> 0"
        "sma 5 (dropna cells) \<noteq> 0"
        by (simp_all add: divides_by_zero_def)
      from technical_forecast_spec [OF True this] True NumCol show ?thesis
        by (simp add: forecast_body_def Let_def)
    next
      case False
      with NumCol show ?thesis by (simp add: forecast_body_def Let_def)
    qed
  next
    case (ObjCol cells)
    then show ?thesis by (simp add: forecast_body_def Let_def)
  qed
  with md show ?thesis
    by (auto simp: get_base_forecast_def Let_def try_except_def)
qed

lemma get_base_forecast_special_iff:
  "get_base_forecast md symb cp = FloatSpecial
     \<longleftrightarrow> (\<exists>col. available_series md symb = Some col \<and> divides_by_zero col)"
  by (auto simp: get_base_forecast_def available_series_def forecast_body_def Let_def
        try_except_def technical_forecast_def np_div_list_def np_div_def divides_by_zero_def
        np_mean_last_n bind_outcome_Special_iff
      split: option.splits column.splits outcome.splits if_splits)

text \<open>
  C5, amended. The bounded fields of the three agents' results stay in range, four of
  them under a condition. When the symbol's series makes no division by zero, the forecast's
  confidence is in [0,100], its volatility is not negative and its trend strength is in
  [0,1]. Whatever the payload is, the sentiment's consensus score is in [-1,1], its
  multiplier in [0.9,1.1], its bull/bear ratio in [0,1], and its confidence, which is the
  payload's confidence passed on unchanged, is in [0,100] if the payload's is. Whatever the
  graph and the symbol are, the topology's contagion risk is at most 1 and its risk
  adjustment is positive; the contagion risk and the penalty are not negative and the
  adjustment is at most 1 if the eigenvalues delivered for the graph's Laplacian are not
  negative, and the centrality score is in [0,1] if the loaded graph has no link from a
  node to itself.
\<close>

theorem bounded_fields_in_range:
  "((\<forall>col. available_series md symb = Some col \<longrightarrow> \<not> divides_by_zero col) \<longrightarrow>
      (\<exists>f. get_base_forecast md symb cur_price = Returns f
         \<and> 0 \<le> confidence f \<and> confidence f \<le> 100 \<and> 0 \<le> volatility f
         \<and> 0 \<le> trend_strength f \<and> trend_strength f \<le> 1))
   \<and> (\<exists>r. get_sentiment_multiplier sd = Returns r
        \<and> - 1 \<le> consensus_score r \<and> consensus_score r \<le> 1
        \<and> 0.9 \<le> sentiment_multiplier r \<and> sentiment_multiplier r \<le> 1.1
        \<and> 0 \<le> bull_bear_ratio r \<and> bull_bear_ratio r \<le> 1
        \<and> ((\<forall>j c. sd = Some j \<and> payload_confidence j = Returns c \<longrightarrow> 0 \<le> c \<and> c \<le> 100)
            \<longrightarrow> 0 \<le> sentiment_confidence r \<and> sentiment_confidence r \<le> 100))
   \<and> (\<exists>t. compute_laplacian_risk eigvalsh (load_graph_data gfile) symb = Returns t
        \<and> contagion_risk t \<le> 1 \<and> 0 < risk_adjustment t
        \<and> ((\<forall>a evs. adjacency_matrix (load_graph_data gfile) = Some a
                \<and> eigvalsh (laplacian a) = Some evs \<longrightarrow> (\<forall>v\<in>set evs. 0 \<le> v))
            \<longrightarrow> 0 \<le> contagion_risk t \<and> 0 \<le> network_risk_penalty t \<and> risk_adjustment t \<le> 1)
        \<and> ((\<forall>g. gfile = Some g \<longrightarrow> no_self_links g)
            \<longrightarrow> 0 \<le> centrality_score t \<and> centrality_score t \<le> 1))"
proof (intro conjI)
  show "(\<forall>col. available_series md symb = Some col \<longrightarrow> \<not> divides_by_zero col) \<longrightarrow>
      (\<exists>f. get_base_forecast md symb cur_price = Returns f
         \<and> 0 \<le> confidence f \<and> confidence f \<le> 100 \<and> 0 \<le> volatility f
         \<and> 0 \<le> trend_strength f \<and> trend_strength f \<le> 1)"
  proof
    assume "\<forall>col. available_series md symb = Some col \<longrightarrow> \<not> divides_by_zero col"
    from get_base_forecast_returns [OF this]
    obtain f where f: "get_base_forecast md symb cur_price = Returns f" by blast
    from get_base_forecast_bounds [OF f] f
    show "\<exists>f. get_base_forecast md symb cur_price = Returns f
         \<and> 0 \<le> confidence f \<and> confidence f \<le> 100 \<and> 0 \<le> volatility f
         \<and> 0 \<le> trend_strength f \<and> trend_strength f \<le> 1"
      by blast
  qed
next
  obtain r where r: "get_sentiment_multiplier sd = Returns r"
    using get_sentiment_multiplier_returns by blast
  have c: "0 \<le> sentiment_confidence r \<and> sentiment_confidence r \<le> 100"
    if "\<forall>j c. sd = Some j \<and> payload_confidence j = Returns c \<longrightarrow> 0 \<le> c \<and> c \<le> 100"
    using get_sentiment_multiplier_bounds [OF r] that by auto
  from r get_sentiment_multiplier_bounds [OF r] get_sentiment_multiplier_range [OF r] c
  show "\<exists>r. get_sentiment_multiplier sd = Returns r
        \<and> - 1 \<le> consensus_score r \<and> consensus_score r \<le> 1
        \<and> 0.9 \<le> sentiment_multiplier r \<and> sentiment_multiplier r \<le> 1.1
        \<and> 0 \<le> bull_bear_ratio r \<and> bull_bear_ratio r \<le> 1
        \<and> ((\<forall>j c. sd = Some j \<and> payload_confidence j = Returns c \<longrightarrow> 0 \<le> c \<and> c \<le> 100)
            \<longrightarrow> 0 \<le> sentiment_confidence r \<and> sentiment_confidence r \<le> 100)"
    by blast
next
  obtain t where t: "compute_laplacian_risk eigvalsh (load_graph_data gfile) symb = Returns t"
    using compute_laplacian_risk_returns by blast
  have p: "0 < risk_adjustment t" using risk_adjustment_positive [OF t] by simp
  have n: "0 \<le> contagion_risk t \<and> 0 \<le> network_risk_penalty t \<and> risk_adjustment t \<le> 1"
    if "\<forall>a evs. adjacency_matrix (load_graph_data gfile) = Some a
                \<and> eigvalsh (laplacian a) = Some evs \<longrightarrow> (\<forall>v\<in>set evs. 0 \<le> v)"
    using contagion_bounds [OF t] that by simp
  have s: "0 \<le> centrality_score t \<and> centrality_score t \<le> 1"
    if "\<forall>g. gfile = Some g \<longrightarrow> no_self_links g"
    using loaded_centrality_le_one [OF t that] .
  from contagion_bounds [OF t] have le: "contagion_risk t \<le> 1" by simp
  from t le p n s
  show "\<exists>t. compute_laplacian_risk eigvalsh (load_graph_data gfile) symb = Returns t
        \<and> contagion_risk t \<le> 1 \<and> 0 < risk_adjustment t
        \<and> ((\<forall>a evs. adjacency_matrix (load_graph_data gfile) = Some a
                \<and> eigvalsh (laplacian a) = Some evs \<longrightarrow> (\<forall>v\<in>set evs. 0 \<le> v))
            \<longrightarrow> 0 \<le> contagion_risk t \<and> 0 \<le> network_risk_penalty t \<and> risk_adjustment t \<le> 1)
        \<and> ((\<forall>g. gfile = Some g \<longrightarrow> no_self_links g)
            \<longrightarrow> 0 \<le> centrality_score t \<and> centrality_score t \<le> 1)"
    by blast
qed

section \<open>The agents on the example data\<close>

lemma up_payload_body:
  "sentiment_body (news_payload ''UP'' c) =
     Returns \<lparr> consensus_score = 1 / 2,
       sentiment_multiplier = py_round (clamp_multiplier (1 + c / 1000)) 4,
       sentiment_label = ''Bullish'', bull_bear_ratio = 3 / 4, sentiment_confidence = c \<rparr>"
  by (simp add: news_payload_def sentiment_body_def round2_half)

lemma round4_values: "py_round (11 / 10) 4 = 11 / 10" "py_round (27 / 25) 4 = 27 / 25"
  by (simp_all add: py_round_def py_round_int_def)

lemma sentiment_up_150:
  "get_sentiment_multiplier (Some (news_payload ''UP'' 150)) =
     Returns \<lparr> consensus_score = 0.5, sentiment_multiplier = 1.1, sentiment_label = ''Bullish'',
       bull_bear_ratio = 0.75, sentiment_confidence = 150 \<rparr>"
  by (simp add: get_sentiment_multiplier_def up_payload_body try_except_def clamp_multiplier_def round4_values)
     (simp add: news_payload_def)

lemma sentiment_up_80:
  "get_sentiment_multiplier (Some (news_payload ''UP'' 80)) =
     Returns \<lparr> consensus_score = 0.5, sentiment_multiplier = 1.08, sentiment_label = ''Bullish'',
       bull_bear_ratio = 0.75, sentiment_confidence = 80 \<rparr>"
  by (simp add: get_sentiment_multiplier_def up_payload_body try_except_def clamp_multiplier_def round4_values)
     (simp add: news_payload_def)

lemma upt2: "[0..<2] = [0, 1]" by (simp add: upt_rec)

lemma payload_confidence_news: "payload_confidence (news_payload d c) = Returns c"
  by (simp add: payload_confidence_def news_payload_def)

lemma two_node_laplacian:
  "laplacian [[a, b], [c, d]] = [[b, - b], [- c, c]]"
  by (simp add: laplacian_def upt2)

lemma two_node_centrality:
  "degree_centrality (Some [[a, b], [c, d]]) [x, y] 0
     = Returns (real (length (filter (\<lambda>w. w > 0) [a, b])))"
  by (simp add: degree_centrality_def list_get_def Let_def)

lemma two_node_contagion:
  "laplacian_contagion two_node_solver (Some [[a, b], [c, d]])
     = Returns (min (sort [0, 2 * b] ! 1 / 10) 1)"
  by (simp add: laplacian_contagion_def two_node_laplacian two_node_solver_def Let_def)

lemma example_signals:
  "collect_neighbor_signals example_graph (Some [[0, 0.7], [0.7, 0]]) [''TCS'', ''INFY''] 0 =
     Returns [\<lparr> ns_symbol = ''INFY'', ns_signal = ''bearish'', ns_risk_score = 0.5 \<rparr>]"
  by (simp add: collect_neighbor_signals_def list_get_def positive_indices_def upt2
        neighbor_step_def example_graph_def Let_def)

lemma example_find_node:
  "find (\<lambda>n. node_id n = ''TCS'') (graph_nodes example_graph)
     = Some \<lparr> node_id = ''TCS'', risk_score = Some 0.3, node_group = Some 1 \<rparr>"
  by (simp add: example_graph_def)

lemma example_cluster: "find_cluster example_graph s = (''General'', ''Moderate'')"
  by (simp add: find_cluster_def example_graph_def)

lemma example_penalty:
  "risk_penalty_of ''Moderate'' (7 / 50)
     [\<lparr> ns_symbol = ''INFY'', ns_signal = ''bearish'', ns_risk_score = 1 / 2 \<rparr>] = 57 / 2500"
  by (simp add: risk_penalty_of_def Let_def)

lemma example_rounding:
  "py_round (57 / 2500) 4 = 57 / 2500" "py_round (2443 / 2500) 4 = 2443 / 2500"
  "py_round 1 3 = 1" "py_round (7 / 50) 3 = 7 / 50"
  by (simp_all add: py_round_def py_round_int_def)

lemma example_topology:
  "compute_laplacian_risk two_node_solver (load_graph_data (Some example_graph)) ''tcs'' =
     Returns \<lparr> network_risk_penalty = 0.0228, risk_adjustment = 0.9772, centrality_score = 1,
       cluster_name = ''General'', cluster_risk = ''Moderate'',
       neighbor_signals = [\<lparr> ns_symbol = ''INFY'', ns_signal = ''bearish'', ns_risk_score = 0.5 \<rparr>],
       contagion_risk = 0.14 \<rparr>"
  by (simp add: compute_laplacian_risk_def example_agent upper_tcs topology_body_def
        example_find_node two_node_centrality example_cluster two_node_contagion example_signals
        example_penalty example_rounding try_except_def)

text \<open>
  With a link from a node to itself the node counts among its own neighbours: for two
  nodes the degree is 2, the greatest degree expected is 1, and the centrality is 2.
\<close>

lemma self_link_agent:
  "load_graph_data (Some self_link_graph) =
     \<lparr> graph_data = Some self_link_graph, adjacency_matrix = Some [[1, 1], [1, 0]],
       nodes = [''TCS'', ''INFY''] \<rparr>"
  by (simp add: load_graph_data_def self_link_graph_def build_adjacency_matrix_def link_step_def
        set_entry_def Let_def)

lemma self_link_signals:
  "collect_neighbor_signals self_link_graph (Some [[1, 1], [1, 0]]) [''TCS'', ''INFY''] 0 =
     Returns [\<lparr> ns_symbol = ''TCS'', ns_signal = ''bullish'', ns_risk_score = 0.3 \<rparr>,
              \<lparr> ns_symbol = ''INFY'', ns_signal = ''bearish'', ns_risk_score = 0.5 \<rparr>]"
  by (simp add: collect_neighbor_signals_def list_get_def positive_indices_def upt2
        neighbor_step_def self_link_graph_def Let_def)

lemma self_link_find_node:
  "find (\<lambda>n. node_id n = ''TCS'') (graph_nodes self_link_graph)
     = Some \<lparr> node_id = ''TCS'', risk_score = Some 0.3, node_group = Some 1 \<rparr>"
  by (simp add: self_link_graph_def)

lemma self_link_cluster: "find_cluster self_link_graph s = (''General'', ''Moderate'')"
  by (simp add: find_cluster_def self_link_graph_def)

lemma self_link_penalty:
  "risk_penalty_of ''Moderate'' (1 / 5)
     [\<lparr> ns_symbol = ''TCS'', ns_signal = ''bullish'', ns_risk_score = 3 / 10 \<rparr>,
      \<lparr> ns_symbol = ''INFY'', ns_signal = ''bearish'', ns_risk_score = 1 / 2 \<rparr>] = 1 / 250"
  by (simp add: risk_penalty_of_def Let_def)

lemma self_link_rounding:
  "py_round (1 / 250) 4 = 1 / 250" "py_round (249 / 250) 4 = 249 / 250"
  "py_round 2 3 = 2" "py_round (1 / 5) 3 = 1 / 5"
  by (simp_all add: py_round_def py_round_int_def)

lemma self_link_centrality:
  "compute_laplacian_risk two_node_solver (load_graph_data (Some self_link_graph)) ''tcs'' =
     Returns \<lparr> network_risk_penalty = 0.004, risk_adjustment = 0.996, centrality_score = 2,
       cluster_name = ''General'', cluster_risk = ''Moderate'',
       neighbor_signals = [\<lparr> ns_symbol = ''TCS'', ns_signal = ''bullish'', ns_risk_score = 0.3 \<rparr>,
                           \<lparr> ns_symbol = ''INFY'', ns_signal = ''bearish'', ns_risk_score = 0.5 \<rparr>],
       contagion_risk = 0.2 \<rparr>"
  by (simp add: compute_laplacian_risk_def self_link_agent upper_tcs topology_body_def
        self_link_find_node two_node_centrality self_link_cluster two_node_contagion self_link_signals
        self_link_penalty self_link_rounding try_except_def)

lemma short_table_forecast:
  "get_base_forecast (Some short_table) ''tcs'' 100 = Returns (forecast_fallback 100)"
  by (simp add: get_base_forecast_def short_table_def upper_tcs forecast_body_def Let_def try_except_def)

text \<open>
  C5, as stated, fails: a payload with direction UP and confidence 150 gives a sentiment
  result whose confidence is 150.
\<close>

theorem unclamped_confidence_counterexample:
  "get_sentiment_multiplier (Some (news_payload ''UP'' 150)) =
     Returns \<lparr> consensus_score = 0.5, sentiment_multiplier = 1.1, sentiment_label = ''Bullish'',
       bull_bear_ratio = 0.75, sentiment_confidence = 150 \<rparr>
   \<and> \<not> (150 :: real) \<le> 100"
  by (simp add: sentiment_up_150)

lemma two_node_solver_nonneg_example:
  "\<forall>a evs. adjacency_matrix (load_graph_data (Some example_graph)) = Some a
      \<and> two_node_solver (laplacian a) = Some evs \<longrightarrow> (\<forall>v\<in>set evs. 0 \<le> v)"
  by (auto simp: example_agent two_node_solver_def two_node_laplacian)

lemma no_self_links_example: "no_self_links example_graph"
  by (simp add: no_self_links_def example_graph_def)

text \<open>
  The bounds on an input that meets every condition: the alternating series, a payload of
  confidence 80, and the example graph with the eigenvalues of its Laplacian.
\<close>

lemma tcs_series:
  "available_series (Some tcs_table) ''tcs'' = Some (NumCol (map Some zigzag_prices))"
  by (simp add: available_series_def tcs_table_def upper_tcs)

lemma tcs_series_divides: "\<not> divides_by_zero (NumCol (map Some zigzag_prices))"
  by (simp add: divides_by_zero_def zigzag_nonzero zigzag_sma20 zigzag_sma5)

lemma tcs_forecast:
  "get_base_forecast (Some tcs_table) ''tcs'' 100 =
     Returns \<lparr> base_price = 100, predicted_price = 99.52, direction = ''SIDEWAYS'',
       confidence = 88.1, volatility = 9.55, trend_strength = 0.95,
       method_tag = ''lstm_technical'' \<rparr>"
proof -
  have "technical_forecast zigzag_prices 100 =
     Returns (forecast_of_indicators 100 (21 / 220) (- (1 / 105)) (- (1 / 26)))"
    using technical_forecast_spec [of zigzag_prices 100]
    by (simp add: zigzag_length zigzag_nonzero zigzag_sma20 zigzag_sma5 zigzag_std
          zigzag_trend zigzag_momentum)
  then show ?thesis
    by (simp add: get_base_forecast_def tcs_table_def upper_tcs forecast_body_def Let_def
          zigzag_length try_except_def zigzag_forecast)
qed

theorem bounded_fields_in_range_witness:
  "available_series (Some tcs_table) ''tcs'' = Some (NumCol (map Some zigzag_prices))
   \<and> \<not> divides_by_zero (NumCol (map Some zigzag_prices))
   \<and> get_base_forecast (Some tcs_table) ''tcs'' 100 =
       Returns \<lparr> base_price = 100, predicted_price = 99.52, direction = ''SIDEWAYS'',
         confidence = 88.1, volatility = 9.55, trend_strength = 0.95,
         method_tag = ''lstm_technical'' \<rparr>
   \<and> get_sentiment_multiplier (Some (news_payload ''UP'' 80)) =
       Returns \<lparr> consensus_score = 0.5, sentiment_multiplier = 1.08, sentiment_label = ''Bullish'',
         bull_bear_ratio = 0.75, sentiment_confidence = 80 \<rparr>
   \<and> payload_confidence (news_payload ''UP'' 80) = Returns 80
   \<and> no_self_links example_graph
   \<and> compute_laplacian_risk two_node_solver (load_graph_data (Some example_graph)) ''tcs'' =
       Returns \<lparr> network_risk_penalty = 0.0228, risk_adjustment = 0.9772, centrality_score = 1,
         cluster_name = ''General'', cluster_risk = ''Moderate'',
         neighbor_signals =
           [\<lparr> ns_symbol = ''INFY'', ns_signal = ''bearish'', ns_risk_score = 0.5 \<rparr>],
         contagion_risk = 0.14 \<rparr>"
  using bounded_fields_in_range [of "Some tcs_table" "''tcs''" 100 "Some (news_payload ''UP'' 80)"
            two_node_solver "Some example_graph"]
        two_node_solver_nonneg_example
  by (simp add: tcs_series tcs_series_divides tcs_forecast sentiment_up_80
        payload_confidence_news no_self_links_example example_topology)

section \<open>Two inputs outside the bounds\<close>

text \<open>
  With links of negative value the second smallest eigenvalue is negative, and so are the
  contagion risk and the penalty; the risk adjustment is above 1.
\<close>

lemma upt3: "[0..<3] = [0, 1, 2]" by (simp add: upt_rec)

lemma negative_link_agent:
  "load_graph_data (Some negative_link_graph) =
     \<lparr> graph_data = Some negative_link_graph,
       adjacency_matrix = Some [[0, - 5, 0], [- 5, 0, - 5], [0, - 5, 0]],
       nodes = [''TCS'', ''INFY'', ''WIPRO''] \<rparr>"
  by (simp add: load_graph_data_def negative_link_graph_def build_adjacency_matrix_def
        link_step_def set_entry_def Let_def)

lemma negative_link_laplacian:
  "laplacian [[0, - 5, 0], [- 5, 0, - 5], [0, - 5, 0]] = [[- 5, 5, 0], [5, - 10, 5], [0, 5, - 5]]"
  by (simp add: laplacian_def upt3)

lemma negative_link_eigenvalues:
  "mat_vec [[- 5, 5, 0], [5, - 10, 5], [0, 5, - 5]] [1, - 2, 1] = map ((*) (- 15)) [1, - 2, 1]"
  "mat_vec [[- 5, 5, 0], [5, - 10, 5], [0, 5, - 5]] [1, 0, - 1] = map ((*) (- 5)) [1, 0, - 1]"
  "mat_vec [[- 5, 5, 0], [5, - 10, 5], [0, 5, - 5]] [1, 1, 1] = map ((*) 0) [1, 1, 1]"
  by (simp_all add: mat_vec_def)

lemma negative_link_contagion:
  "laplacian_contagion three_node_solver (Some [[0, - 5, 0], [- 5, 0, - 5], [0, - 5, 0]])
     = Returns (- (1 / 2))"
  by (simp add: laplacian_contagion_def three_node_solver_def Let_def)

lemma negative_link_parts:
  "find (\<lambda>n. node_id n = ''TCS'') (graph_nodes negative_link_graph)
     = Some \<lparr> node_id = ''TCS'', risk_score = Some 0.3, node_group = Some 1 \<rparr>"
  "find_cluster negative_link_graph s = (''General'', ''Moderate'')"
  "degree_centrality (Some [[0, - 5, 0], [- 5, 0, - 5], [0, - 5, 0]]) [''TCS'', ''INFY'', ''WIPRO''] 0
     = Returns 0"
  "collect_neighbor_signals negative_link_graph (Some [[0, - 5, 0], [- 5, 0, - 5], [0, - 5, 0]])
     [''TCS'', ''INFY'', ''WIPRO''] 0 = Returns []"
  "risk_penalty_of ''Moderate'' (- (1 / 2)) [] = - (1 / 100)"
  by (simp_all add: negative_link_graph_def find_cluster_def degree_centrality_def list_get_def
        collect_neighbor_signals_def positive_indices_def upt3 risk_penalty_of_def Let_def)

lemma negative_link_rounding:
  "py_round (- (1 / 100)) 4 = - (1 / 100)" "py_round (101 / 100) 4 = 101 / 100"
  "py_round 0 3 = 0" "py_round (- (1 / 2)) 3 = - (1 / 2)"
  by (simp_all add: py_round_def py_round_int_def)

lemma negative_link_contagion_below_zero:
  "compute_laplacian_risk three_node_solver (load_graph_data (Some negative_link_graph)) ''tcs'' =
     Returns \<lparr> network_risk_penalty = - 0.01, risk_adjustment = 1.01, centrality_score = 0,
       cluster_name = ''General'', cluster_risk = ''Moderate'', neighbor_signals = [],
       contagion_risk = - 0.5 \<rparr>"
  by (simp add: compute_laplacian_risk_def negative_link_agent upper_tcs topology_body_def
        negative_link_parts negative_link_contagion negative_link_rounding try_except_def)

text \<open>
  A division by zero in the indicators is no exception: the forecast is then neither the
  fallback nor a forecast of finite numbers.
\<close>

lemma upper_nil: "upper ''nil'' = ''NIL''"
  by (simp add: upper_def upper_char_def)

lemma zero_series_not_fallback:
  "get_base_forecast (Some zero_table) ''nil'' 100 = FloatSpecial"
  by (simp add: get_base_forecast_def zero_table_def upper_nil forecast_body_def dropna_replicate
        technical_forecast_def np_div_list_def try_except_def Let_def butlast_conv_take)

section \<open>The cache keeps what was stored\<close>

lemma map_of_without_key: "map_of (filter (\<lambda>e. fst e \<noteq> k) c) k = None"
  by (induction c) auto

lemma map_of_moved_to_end:
  "map_of (filter (\<lambda>e. fst e \<noteq> k) c @ [(k, entry)]) k = Some entry"
  by (simp add: map_of_without_key map_add_def)

lemma map_of_drop_None: "map_of c k = None \<Longrightarrow> map_of (drop n c) k = None"
  using set_drop_subset [of n c] by (auto simp: map_of_eq_None_iff)

lemma cache_setitem_lookup: "map_of (cache_setitem c now k v) k = Some (now + ttl, v)"
proof -
  let ?c1 = "expire c now"
  let ?c2 = "if k \<in> fst ` set ?c1 then filter (\<lambda>e. fst e \<noteq> k) ?c1
             else drop (length ?c1 + 1 - maxsize) ?c1"
  have "map_of ?c2 k = None"
  proof (cases "k \<in> fst ` set ?c1")
    case True
    then show ?thesis by (simp add: map_of_without_key)
  next
    case False
    then have "map_of ?c1 k = None" by (simp add: map_of_eq_None_iff)
    then show ?thesis using False by (simp add: map_of_drop_None)
  qed
  then show ?thesis by (simp add: cache_setitem_def Let_def map_add_def)
qed

text \<open>
  A full cache of live entries loses its least recently used entry when a new key is
  stored.
\<close>

lemma full_cache_evicts_oldest:
  assumes "length c = maxsize" and "\<forall>e\<in>set c. now < fst (snd e)" and "k \<notin> fst ` set c"
  shows "cache_setitem c now k v = tl c @ [(k, now + ttl, v)]"
proof -
  have "expire c now = c"
    using assms(2) by (auto simp: expire_def filter_id_conv)
  then show ?thesis
    using assms(1,3) by (simp add: cache_setitem_def Let_def drop_Suc)
qed

lemma cache_getitem_live:
  assumes "map_of c k = Some (expires, v)" "now < expires"
  shows "cache_getitem c now k = (Returns v, filter (\<lambda>e. fst e \<noteq> k) c @ [(k, expires, v)])"
  using assms by (simp add: cache_getitem_def Let_def)

lemma cache_contains_iff:
  "cache_contains c now k \<longleftrightarrow> (\<exists>expires v. map_of c k = Some (expires, v) \<and> now < expires)"
  by (auto simp: cache_contains_def split: option.splits)

section \<open>Hits and misses of \<^verbatim>\<open>predict\<close>\<close>

lemma predict_hit:
  assumes "map_of c (symb, cp, shock) = Some (expires, v)"
    and "t_contains clk < expires" "t_getitem clk < expires"
  shows "predict eigvalsh orch c clk symb cp sd shock =
           (v, filter (\<lambda>e. fst e \<noteq> (symb, cp, shock)) c @ [((symb, cp, shock), expires, v)])"
proof -
  have "cache_contains c (t_contains clk) (symb, cp, shock)"
    using assms(1,2) by (auto simp: cache_contains_iff)
  then show ?thesis
    using cache_getitem_live [OF assms(1,3)]
    by (cases v) (simp_all add: predict_def Let_def)
qed

lemma predict_miss:
  assumes "\<not> cache_contains c (t_contains clk) (symb, cp, shock)"
  shows "predict eigvalsh orch c clk symb cp sd shock =
           (case compute_prediction eigvalsh orch (now_iso clk) symb cp sd shock of
              Raises e \<Rightarrow> (Raises e, c)
            | res \<Rightarrow> (res, cache_setitem c (t_setitem clk) (symb, cp, shock) res))"
  using assms by (simp add: predict_def Let_def)

lemma predict_leaves_entry:
  assumes "predict eigvalsh orch c clk symb cp sd shock = (Returns r, c')"
  shows "\<exists>expires. map_of c' (symb, cp, shock) = Some (expires, Returns r)"
proof (cases "cache_contains c (t_contains clk) (symb, cp, shock)")
  case True
  then obtain expires v where e: "map_of c (symb, cp, shock) = Some (expires, v)"
    by (auto simp: cache_contains_iff)
  show ?thesis
  proof (cases "t_getitem clk < expires")
    case live: True
    from assms True e live have "v = Returns r"
        "c' = filter (\<lambda>e. fst e \<noteq> (symb, cp, shock)) c @ [((symb, cp, shock), expires, v)]"
      by (cases v; simp add: predict_def Let_def cache_getitem_live [OF e live])+
    then show ?thesis
      using map_of_moved_to_end [of "(symb, cp, shock)" c "(expires, Returns r)"] by blast
  next
    case False
    with assms True e show ?thesis
      by (simp add: predict_def Let_def cache_getitem_def)
  qed
next
  case False
  from assms predict_miss [OF False, of eigvalsh orch sd]
  have "c' = cache_setitem c (t_setitem clk) (symb, cp, shock) (Returns r)"
    by (auto split: outcome.splits)
  then show ?thesis by (simp add: cache_setitem_lookup)
qed

lemma predict_miss_stores:
  assumes "\<not> cache_contains c (t_contains clk) (symb, cp, shock)"
    and "predict eigvalsh orch c clk symb cp sd shock = (Returns r, c')"
  shows "map_of c' (symb, cp, shock) = Some (t_setitem clk + ttl, Returns r)"
proof -
  from assms(2) predict_miss [OF assms(1), of eigvalsh orch sd]
  have "c' = cache_setitem c (t_setitem clk) (symb, cp, shock) (Returns r)"
    by (auto split: outcome.splits)
  then show ?thesis by (simp add: cache_setitem_lookup)
qed

lemma cache_setitem_form:
  "\<exists>c2. cache_setitem c now k v = c2 @ [(k, now + ttl, v)] \<and> (\<forall>e\<in>set c2. fst e \<noteq> k)"
proof -
  let ?c1 = "expire c now"
  let ?c2 = "if k \<in> fst ` set ?c1 then filter (\<lambda>e. fst e \<noteq> k) ?c1
             else drop (length ?c1 + 1 - maxsize) ?c1"
  have "\<forall>e\<in>set ?c2. fst e \<noteq> k"
  proof (cases "k \<in> fst ` set ?c1")
    case True
    then show ?thesis by simp
  next
    case False
    then show ?thesis using set_drop_subset [of "length ?c1 + 1 - maxsize" ?c1] by auto
  qed
  moreover have "cache_setitem c now k v = ?c2 @ [(k, now + ttl, v)]"
    by (simp add: cache_setitem_def Let_def)
  ultimately show ?thesis by blast
qed

lemma cache_setitem_touch:
  "filter (\<lambda>e. fst e \<noteq> k) (cache_setitem c now k v) @ [(k, now + ttl, v)]
     = cache_setitem c now k v"
proof -
  from cache_setitem_form [of c now k v] obtain c2
    where "cache_setitem c now k v = c2 @ [(k, now + ttl, v)]" "\<forall>e\<in>set c2. fst e \<noteq> k"
    by blast
  then show ?thesis by (simp add: filter_id_conv)
qed

lemma fuse_timestamp: "fuse symb cp shock stamp q t s = Returns r \<Longrightarrow> timestamp r = stamp"
  by (auto simp: fuse_def Let_def split: if_splits)

lemma compute_prediction_timestamp:
  "compute_prediction eigvalsh orch stamp symb cp sd shock = Returns r \<Longrightarrow> timestamp r = stamp"
  by (auto simp: compute_prediction_def bind_outcome_Returns_iff dest: fuse_timestamp)

text \<open>
  C4. A call of \<^verbatim>\<open>predict\<close> that finds no live entry, computes and returns a result, and
  a second call with the same symbol, price and shock flag on the cache the first one left,
  made while the timer is less than 300 seconds past the first call's store: the second
  call returns the first call's result, timestamp included (the one taken by the first
  call), whatever agents, data and payload it is given, and leaves the cache as it was.
\<close>

theorem repeated_call_returns_cached_result:
  assumes "\<not> cache_contains c (t_contains clk1) (symb, cp, shock)"
    and "predict eigvalsh orch c clk1 symb cp sd1 shock = (Returns r1, c1)"
    and "t_contains clk2 < t_setitem clk1 + ttl" "t_getitem clk2 < t_setitem clk1 + ttl"
  shows "predict eigvalsh' orch' c1 clk2 symb cp sd2 shock = (Returns r1, c1)
       \<and> timestamp r1 = now_iso clk1"
proof -
  let ?k = "(symb, cp, shock)"
  from assms(2) predict_miss [OF assms(1), of eigvalsh orch sd1]
  have comp: "compute_prediction eigvalsh orch (now_iso clk1) symb cp sd1 shock = Returns r1"
    and c1: "c1 = cache_setitem c (t_setitem clk1) ?k (Returns r1)"
    by (auto split: outcome.splits)
  have e: "map_of c1 ?k = Some (t_setitem clk1 + ttl, Returns r1)"
    using c1 by (simp add: cache_setitem_lookup)
  from predict_hit [OF e assms(3,4)]
  have "predict eigvalsh' orch' c1 clk2 symb cp sd2 shock =
          (Returns r1, filter (\<lambda>e. fst e \<noteq> ?k) c1 @ [(?k, t_setitem clk1 + ttl, Returns r1)])" .
  then have "predict eigvalsh' orch' c1 clk2 symb cp sd2 shock = (Returns r1, c1)"
    unfolding c1 by (simp only: cache_setitem_touch)
  moreover from comp have "timestamp r1 = now_iso clk1" by (rule compute_prediction_timestamp)
  ultimately show ?thesis by simp
qed

text \<open>
  C10. Two calls of \<^verbatim>\<open>predict\<close> with the same symbol, price and shock flag and any two
  payloads: if the first returned a result and the entry it left for the key is still the
  key's entry and live at the second call's two timer readings, the second call returns
  the first call's result, and it returns the same, and leaves the same cache, for any
  other payload in place of its own.
\<close>

theorem cached_result_ignores_sentiment_payload:
  assumes "predict eigvalsh orch c clk1 symb cp sd1 shock = (Returns r1, c1)"
    and "map_of c2 (symb, cp, shock) = map_of c1 (symb, cp, shock)"
    and "cache_contains c2 (t_contains clk2) (symb, cp, shock)"
    and "cache_contains c2 (t_getitem clk2) (symb, cp, shock)"
  shows "fst (predict eigvalsh orch c2 clk2 symb cp sd2 shock) = Returns r1
       \<and> predict eigvalsh orch c2 clk2 symb cp sd2 shock
           = predict eigvalsh orch c2 clk2 symb cp sd2' shock"
proof -
  let ?k = "(symb, cp, shock)"
  from predict_leaves_entry [OF assms(1)] obtain expires
    where e1: "map_of c1 ?k = Some (expires, Returns r1)" by blast
  with assms(2) have e: "map_of c2 ?k = Some (expires, Returns r1)" by simp
  from assms(3,4) e have live: "t_contains clk2 < expires" "t_getitem clk2 < expires"
    by (auto simp: cache_contains_iff)
  from predict_hit [OF e live, of eigvalsh orch sd2] predict_hit [OF e live, of eigvalsh orch sd2']
  show ?thesis by simp
qed

section \<open>The end-to-end example, called twice\<close>

lemma upper_reliance: "upper ''RELIANCE'' = ''RELIANCE''"
  by (simp add: upper_def upper_char_def)

lemma bare_agents:
  "get_base_forecast (market_data bare_orchestrator) s p = Returns (forecast_fallback p)"
  "compute_laplacian_risk eigvalsh (topology bare_orchestrator) s = Returns topology_default"
  "get_sentiment_multiplier None = Returns sentiment_default"
  by (simp_all add: bare_orchestrator_def get_base_forecast_def compute_laplacian_risk_def
        load_graph_data_def get_sentiment_multiplier_def)

lemma reliance_rounding:
  "py_round 3009 2 = 3009" "py_round (145 / 2) (Suc 0) = 145 / 2" "py_round 2 2 = 2" "py_round 0 2 = 0"
  by (simp_all add: py_round_def py_round_int_def)

lemma reliance_fuse:
  "fuse ''RELIANCE'' 2950 False ''2026-01-05T09:00:00'' (forecast_fallback 2950)
     topology_default sentiment_default = Returns reliance_result"
  by (simp add: fuse_def forecast_fallback_def topology_default_def sentiment_default_def
        final_predicted_of_def price_change_pct_of_def direction_of_def weight_quant_def
        weight_topology_def weight_sentiment_def upper_reliance reliance_rounding Let_def
        reliance_result_def)

lemma reliance_computed:
  "compute_prediction eigvalsh bare_orchestrator ''2026-01-05T09:00:00'' ''RELIANCE'' 2950 None False
     = Returns reliance_result"
  by (simp add: compute_prediction_def bare_agents apply_shock_def reliance_fuse)

lemma reliance_first_call:
  "predict eigvalsh bare_orchestrator [] first_clock ''RELIANCE'' 2950 None False =
     (Returns reliance_result, [((''RELIANCE'', 2950, False), 300, Returns reliance_result)])"
  by (simp add: predict_def cache_contains_def first_clock_def reliance_computed
        cache_setitem_def expire_def ttl_def Let_def)

theorem repeated_call_returns_cached_result_witness:
  "\<not> cache_contains [] (t_contains first_clock) (''RELIANCE'', 2950, False)
   \<and> predict failing_solver bare_orchestrator [] first_clock ''RELIANCE'' 2950 None False =
       (Returns reliance_result, [((''RELIANCE'', 2950, False), 300, Returns reliance_result)])
   \<and> t_contains second_clock < t_setitem first_clock + ttl
   \<and> t_getitem second_clock < t_setitem first_clock + ttl
   \<and> predict failing_solver bare_orchestrator
         [((''RELIANCE'', 2950, False), 300, Returns reliance_result)]
         second_clock ''RELIANCE'' 2950 None False =
       (Returns reliance_result, [((''RELIANCE'', 2950, False), 300, Returns reliance_result)])
   \<and> timestamp reliance_result = now_iso first_clock"
proof -
  have miss: "\<not> cache_contains [] (t_contains first_clock) (''RELIANCE'', 2950, False)"
    by (simp add: cache_contains_def)
  have t: "t_contains second_clock < t_setitem first_clock + ttl"
    "t_getitem second_clock < t_setitem first_clock + ttl"
    by (simp_all add: first_clock_def second_clock_def ttl_def)
  from repeated_call_returns_cached_result [OF miss reliance_first_call t, of failing_solver bare_orchestrator None]
    miss t reliance_first_call
  show ?thesis by simp
qed

theorem cached_result_ignores_sentiment_payload_witness:
  "predict failing_solver bare_orchestrator [] first_clock ''RELIANCE'' 2950 None False =
       (Returns reliance_result, [((''RELIANCE'', 2950, False), 300, Returns reliance_result)])
   \<and> cache_contains [((''RELIANCE'', 2950, False), 300, Returns reliance_result)]
         (t_contains second_clock) (''RELIANCE'', 2950, False)
   \<and> cache_contains [((''RELIANCE'', 2950, False), 300, Returns reliance_result)]
         (t_getitem second_clock) (''RELIANCE'', 2950, False)
   \<and> fst (predict failing_solver bare_orchestrator
         [((''RELIANCE'', 2950, False), 300, Returns reliance_result)]
         second_clock ''RELIANCE'' 2950 (Some (news_payload ''DOWN'' 90)) False)
       = Returns reliance_result
   \<and> predict failing_solver bare_orchestrator
         [((''RELIANCE'', 2950, False), 300, Returns reliance_result)]
         second_clock ''RELIANCE'' 2950 (Some (news_payload ''DOWN'' 90)) False
       = predict failing_solver bare_orchestrator
         [((''RELIANCE'', 2950, False), 300, Returns reliance_result)]
         second_clock ''RELIANCE'' 2950 None False"
proof -
  have live: "cache_contains [((''RELIANCE'', 2950, False), 300, Returns reliance_result)]
         (t_contains second_clock) (''RELIANCE'', 2950, False)"
     "cache_contains [((''RELIANCE'', 2950, False), 300, Returns reliance_result)]
         (t_getitem second_clock) (''RELIANCE'', 2950, False)"
    by (simp_all add: cache_contains_def second_clock_def)
  from cached_result_ignores_sentiment_payload [OF reliance_first_call refl live, of failing_solver "Some (news_payload ''DOWN'' 90)" None]
    reliance_first_call [of failing_solver] live
  show ?thesis by blast
qed

section \<open>What the fusion returns\<close>

lemma fuse_returns:
  assumes "cp \<noteq> 0" "predicted_price q \<noteq> 0"
  shows "\<exists>r. fuse symb cp shock stamp q t s = Returns r"
  using assms by (simp add: fuse_def Let_def)

lemma fuse_fields:
  assumes "fuse symb cp shock stamp q t s = Returns r"
  shows "final_direction r = direction_of (price_change_pct_of (final_predicted_of q t s) cp)"
    and "ta_risk_adjustment (comp_topology_agent r) = risk_adjustment t"
    and "ta_network_risk_penalty (comp_topology_agent r) = network_risk_penalty t"
    and "ta_adjusted_price (comp_topology_agent r) = py_round (predicted_price q * risk_adjustment t) 2"
    and "cp \<noteq> 0" and "predicted_price q \<noteq> 0"
  using assms by (auto simp: fuse_def Let_def split: if_splits)

lemma compute_prediction_Returns:
  assumes "compute_prediction eigvalsh orch stamp symb cp sd shock = Returns r"
  shows "\<exists>q t s. get_base_forecast (market_data orch) symb cp = Returns q
           \<and> compute_laplacian_risk eigvalsh (topology orch) symb = Returns t
           \<and> get_sentiment_multiplier sd = Returns s
           \<and> fuse symb cp shock stamp q (apply_shock shock t) s = Returns r"
  using assms by (auto simp: compute_prediction_def bind_outcome_Returns_iff)

lemma predict_miss_Returns:
  assumes "\<not> cache_contains c (t_contains clk) (symb, cp, shock)"
    and "fst (predict eigvalsh orch c clk symb cp sd shock) = Returns r"
  shows "compute_prediction eigvalsh orch (now_iso clk) symb cp sd shock = Returns r"
  using assms(2) predict_miss [OF assms(1), of eigvalsh orch sd]
  by (auto split: outcome.splits)

text \<open>
  C9. When \<^verbatim>\<open>predict\<close> computes a result (no live cache entry) from the forecast, the
  topology result (shock applied) and the sentiment, with the percent change
  \<open>pct = (final_predicted - current_price) / current_price * 100\<close>: a \<open>pct\<close> of exactly 1
  or exactly -1 gives the direction "SIDEWAYS"; the direction is "UP" exactly when
  \<open>pct > 1\<close> and "DOWN" exactly when \<open>pct < -1\<close>.
\<close>

theorem direction_boundary_is_sideways:
  assumes "\<not> cache_contains c (t_contains clk) (symb, cp, shock)"
    and "get_base_forecast (market_data orch) symb cp = Returns q"
    and "compute_laplacian_risk eigvalsh (topology orch) symb = Returns t"
    and "get_sentiment_multiplier sd = Returns s"
    and "fst (predict eigvalsh orch c clk symb cp sd shock) = Returns r"
    and "pct = price_change_pct_of (final_predicted_of q (apply_shock shock t) s) cp"
  shows "(pct = 1 \<or> pct = - 1 \<longrightarrow> final_direction r = ''SIDEWAYS'')
       \<and> (final_direction r = ''UP'' \<longleftrightarrow> 1 < pct)
       \<and> (final_direction r = ''DOWN'' \<longleftrightarrow> pct < - 1)"
proof -
  from predict_miss_Returns [OF assms(1,5)] assms(2-4)
  have "fuse symb cp shock (now_iso clk) q (apply_shock shock t) s = Returns r"
    by (simp add: compute_prediction_def)
  from fuse_fields(1) [OF this] assms(6) have "final_direction r = direction_of pct" by simp
  then show ?thesis by (simp add: direction_of_def)
qed

section \<open>Every cached result was computed by \<^verbatim>\<open>predict\<close>\<close>

lemma set_cache_setitem: "set (cache_setitem c now k v) \<subseteq> insert (k, now + ttl, v) (set c)"
proof -
  have "set (drop n (expire c now)) \<subseteq> set c" for n
    using set_drop_subset [of n "expire c now"] by (auto simp: expire_def)
  moreover have "set (filter P (expire c now)) \<subseteq> set c" for P
    by (auto simp: expire_def)
  ultimately show ?thesis by (auto simp: cache_setitem_def Let_def)
qed

lemma set_cache_getitem: "set (snd (cache_getitem c now k)) \<subseteq> set c"
  by (auto simp: cache_getitem_def Let_def split: option.splits dest: map_of_SomeD)

lemma predict_cache_entries:
  assumes "x \<in> set (snd (predict eigvalsh orch c clk symb cp sd shock))"
  shows "x \<in> set c
       \<or> (\<exists>res. x = ((symb, cp, shock), t_setitem clk + ttl, res)
             \<and> res = compute_prediction eigvalsh orch (now_iso clk) symb cp sd shock)"
proof (cases "cache_contains c (t_contains clk) (symb, cp, shock)")
  case True
  then have "snd (predict eigvalsh orch c clk symb cp sd shock)
               = snd (cache_getitem c (t_getitem clk) (symb, cp, shock))"
    by (auto simp: predict_def Let_def split: prod.splits outcome.splits)
  with assms set_cache_getitem show ?thesis by fastforce
next
  case False
  show ?thesis
  proof (cases "compute_prediction eigvalsh orch (now_iso clk) symb cp sd shock")
    case (Raises e)
    with assms False show ?thesis by (simp add: predict_miss)
  next
    case (Returns r)
    with assms False set_cache_setitem show ?thesis by (fastforce simp: predict_miss)
  next
    case FloatSpecial
    with assms False set_cache_setitem show ?thesis by (fastforce simp: predict_miss)
  qed
qed

lemma reachable_entries_computed:
  assumes "reachable eigvalsh orch c"
  shows "\<forall>k expires v. (k, expires, v) \<in> set c \<longrightarrow>
           (\<exists>stamp sd. v = compute_prediction eigvalsh orch stamp (fst k) (fst (snd k)) sd (snd (snd k)))"
  using assms
proof (induction rule: reachable.induct)
  case reachable_empty
  then show ?case by simp
next
  case (reachable_predict c clk symb cur_price sentiment_data shock_simulation c')
  show ?case
  proof (intro allI impI)
    fix k expires v
    assume "(k, expires, v) \<in> set c'"
    with reachable_predict.hyps(2)
    have "(k, expires, v) \<in> set (snd (predict eigvalsh orch c clk symb cur_price sentiment_data shock_simulation))"
      by simp
    from predict_cache_entries [OF this]
    consider "(k, expires, v) \<in> set c"
      | "k = (symb, cur_price, shock_simulation)"
        "v = compute_prediction eigvalsh orch (now_iso clk) symb cur_price sentiment_data
               shock_simulation"
      by auto
    then show "\<exists>stamp sd. v = compute_prediction eigvalsh orch stamp (fst k) (fst (snd k)) sd (snd (snd k))"
    proof cases
      case 1
      with reachable_predict.IH show ?thesis by blast
    next
      case 2
      then have "v = compute_prediction eigvalsh orch (now_iso clk) (fst k) (fst (snd k))
                       sentiment_data (snd (snd k))"
        by simp
      then show ?thesis by blast
    qed
  qed
qed

lemma reachable_result_computed:
  assumes "reachable eigvalsh orch c"
    and "fst (predict eigvalsh orch c clk symb cp sd shock) = Returns r"
  shows "\<exists>stamp sd'. compute_prediction eigvalsh orch stamp symb cp sd' shock = Returns r"
proof (cases "cache_contains c (t_contains clk) (symb, cp, shock)")
  case False
  from predict_miss_Returns [OF False assms(2)] show ?thesis by blast
next
  case True
  then obtain expires v where e: "map_of c (symb, cp, shock) = Some (expires, v)"
    by (auto simp: cache_contains_iff)
  have "v = Returns r"
  proof (cases "t_getitem clk < expires")
    case live: True
    from assms(2) True e live show ?thesis
      by (cases v; simp add: predict_def Let_def cache_getitem_live [OF e live])
  next
    case False
    with assms(2) True e show ?thesis
      by (simp add: predict_def Let_def cache_getitem_def)
  qed
  moreover from e have "((symb, cp, shock), expires, v) \<in> set c" by (rule map_of_SomeD)
  ultimately show ?thesis using reachable_entries_computed [OF assms(1)] by fastforce
qed


section \<open>Shock simulation\<close>

text \<open>
  C3. For the same symbol and price, on any cache states the service can be in and with
  any payloads: if \<^verbatim>\<open>predict\<close> with shock simulation returns a result and \<^verbatim>\<open>predict\<close>
  without it returns a result, the first one's \<^verbatim>\<open>risk_adjustment\<close> is exactly 0.9 times
  the second one's and strictly smaller, and its \<^verbatim>\<open>network_risk_penalty\<close> is exactly the
  second one's plus 0.1 and strictly larger. The values without shock are those the
  topology agent returned, and the adjusted price of the fusion is computed from the
  adjustment after the shock.
\<close>

theorem shock_scales_topology_risk:
  assumes "reachable eigvalsh orch c1" and "reachable eigvalsh orch c0"
    and "fst (predict eigvalsh orch c1 clk1 symb cp sd1 True) = Returns r1"
    and "fst (predict eigvalsh orch c0 clk0 symb cp sd0 False) = Returns r0"
  shows "ta_risk_adjustment (comp_topology_agent r1)
           = 0.9 * ta_risk_adjustment (comp_topology_agent r0)
       \<and> ta_risk_adjustment (comp_topology_agent r1) < ta_risk_adjustment (comp_topology_agent r0)
       \<and> ta_network_risk_penalty (comp_topology_agent r1)
           = ta_network_risk_penalty (comp_topology_agent r0) + 0.1
       \<and> ta_network_risk_penalty (comp_topology_agent r1)
           > ta_network_risk_penalty (comp_topology_agent r0)
       \<and> (\<exists>q t. get_base_forecast (market_data orch) symb cp = Returns q
                \<and> compute_laplacian_risk eigvalsh (topology orch) symb = Returns t
                \<and> ta_risk_adjustment (comp_topology_agent r0) = risk_adjustment t
                \<and> ta_network_risk_penalty (comp_topology_agent r0) = network_risk_penalty t
                \<and> ta_adjusted_price (comp_topology_agent r0)
                    = py_round (predicted_price q * risk_adjustment t) 2
                \<and> ta_adjusted_price (comp_topology_agent r1)
                    = py_round (predicted_price q * (risk_adjustment t * 0.9)) 2)"
proof -
  from reachable_result_computed [OF assms(1,3)] obtain stamp1 sd1'
    where "compute_prediction eigvalsh orch stamp1 symb cp sd1' True = Returns r1" by blast
  from compute_prediction_Returns [OF this] obtain q t s1
    where q: "get_base_forecast (market_data orch) symb cp = Returns q"
      and t: "compute_laplacian_risk eigvalsh (topology orch) symb = Returns t"
      and f1: "fuse symb cp True stamp1 q (apply_shock True t) s1 = Returns r1"
    by blast
  from reachable_result_computed [OF assms(2,4)] obtain stamp0 sd0'
    where "compute_prediction eigvalsh orch stamp0 symb cp sd0' False = Returns r0" by blast
  from compute_prediction_Returns [OF this] q t obtain s0
    where f0: "fuse symb cp False stamp0 q (apply_shock False t) s0 = Returns r0"
    by auto
  have pos: "0.8 \<le> risk_adjustment t" using t by (rule risk_adjustment_positive)
  have r1: "ta_risk_adjustment (comp_topology_agent r1) = risk_adjustment t * 0.9"
      "ta_network_risk_penalty (comp_topology_agent r1) = network_risk_penalty t + 0.1"
      "ta_adjusted_price (comp_topology_agent r1)
         = py_round (predicted_price q * (risk_adjustment t * 0.9)) 2"
    using fuse_fields(2-4) [OF f1] by (simp_all add: apply_shock_def)
  have r0: "ta_risk_adjustment (comp_topology_agent r0) = risk_adjustment t"
      "ta_network_risk_penalty (comp_topology_agent r0) = network_risk_penalty t"
      "ta_adjusted_price (comp_topology_agent r0) = py_round (predicted_price q * risk_adjustment t) 2"
    using fuse_fields(2-4) [OF f0] by (simp_all add: apply_shock_def)
  have "ta_risk_adjustment (comp_topology_agent r1) = 0.9 * ta_risk_adjustment (comp_topology_agent r0)"
    "ta_risk_adjustment (comp_topology_agent r1) < ta_risk_adjustment (comp_topology_agent r0)"
    "ta_network_risk_penalty (comp_topology_agent r1) = ta_network_risk_penalty (comp_topology_agent r0) + 0.1"
    "ta_network_risk_penalty (comp_topology_agent r1) > ta_network_risk_penalty (comp_topology_agent r0)"
    using pos by (simp_all add: r1(1,2) r0(1,2))
  moreover have "\<exists>q t. get_base_forecast (market_data orch) symb cp = Returns q
                \<and> compute_laplacian_risk eigvalsh (topology orch) symb = Returns t
                \<and> ta_risk_adjustment (comp_topology_agent r0) = risk_adjustment t
                \<and> ta_network_risk_penalty (comp_topology_agent r0) = network_risk_penalty t
                \<and> ta_adjusted_price (comp_topology_agent r0)
                    = py_round (predicted_price q * risk_adjustment t) 2
                \<and> ta_adjusted_price (comp_topology_agent r1)
                    = py_round (predicted_price q * (risk_adjustment t * 0.9)) 2"
    using q t r0 r1(3) by blast
  ultimately show ?thesis by blast
qed

section \<open>The boundary and the shock on the example data\<close>

lemma returned_simps [simp]:
  "returned (Returns x) = Some x" "returned (Raises e) = None" "returned FloatSpecial = None"
  by (simp_all add: returned_def)

lemma empty_cache_miss: "\<not> cache_contains [] now k"
  by (simp add: cache_contains_def)

lemma predict_on_empty:
  "fst (predict eigvalsh orch [] clk symb cp sd shock)
     = compute_prediction eigvalsh orch (now_iso clk) symb cp sd shock"
  by (cases "compute_prediction eigvalsh orch (now_iso clk) symb cp sd shock")
     (simp_all add: predict_miss [OF empty_cache_miss])

lemma upper_edge: "upper ''edge'' = ''EDGE''"
  by (simp add: upper_def upper_char_def)

lemma boundary_length: "length boundary_prices = 20"
  by (simp add: boundary_prices_def)

lemma boundary_nonzero: "0 \<notin> set (butlast boundary_prices)"
  by (simp add: boundary_prices_def)

lemma boundary_sma20: "sma 20 boundary_prices = 100"
  by (simp add: sma_def boundary_prices_def)

lemma boundary_sma5: "sma 5 boundary_prices = 102"
  by (simp add: sma_def boundary_prices_def)

lemma boundary_trend: "spec_trend boundary_prices = 1 / 50"
  by (simp add: spec_trend_def boundary_sma20 boundary_sma5)

lemma boundary_momentum: "spec_momentum boundary_prices = 0"
  by (simp add: spec_momentum_def boundary_sma5) (simp add: boundary_prices_def)

lemma boundary_forecast:
  "get_base_forecast (market_data boundary_orchestrator) ''edge'' 100 =
     Returns (forecast_of_indicators 100 (std_dev (simple_returns boundary_prices)) (1 / 50) 0)"
proof -
  have "technical_forecast boundary_prices 100 =
     Returns (forecast_of_indicators 100 (std_dev (simple_returns boundary_prices)) (1 / 50) 0)"
    using technical_forecast_spec [of boundary_prices 100]
    by (simp add: boundary_length boundary_nonzero boundary_sma20 boundary_sma5 boundary_trend
          boundary_momentum)
  then show ?thesis
    by (simp add: get_base_forecast_def boundary_orchestrator_def upper_edge forecast_body_def
          boundary_length try_except_def Let_def)
qed

lemma boundary_predicted:
  "predicted_price (forecast_of_indicators 100 v (1 / 50) 0) = 101"
  by (simp add: forecast_of_indicators_def Let_def py_round_def py_round_int_def)

lemma boundary_topology:
  "compute_laplacian_risk eigvalsh (topology boundary_orchestrator) s = Returns topology_default"
  by (simp add: boundary_orchestrator_def compute_laplacian_risk_def load_graph_data_def)

lemma sentiment_none: "get_sentiment_multiplier None = Returns sentiment_default"
  by (simp add: get_sentiment_multiplier_def)

lemma boundary_pct:
  "price_change_pct_of
     (final_predicted_of (forecast_of_indicators 100 v (1 / 50) 0)
        (apply_shock False topology_default) sentiment_default) 100 = 1"
  by (simp add: price_change_pct_of_def final_predicted_of_def boundary_predicted apply_shock_def
        topology_default_def sentiment_default_def)

theorem direction_boundary_is_sideways_witness:
  "\<not> cache_contains [] (t_contains first_clock) (''edge'', 100, False)
   \<and> get_base_forecast (market_data boundary_orchestrator) ''edge'' 100 =
       Returns (forecast_of_indicators 100 (std_dev (simple_returns boundary_prices)) (1 / 50) 0)
   \<and> compute_laplacian_risk failing_solver (topology boundary_orchestrator) ''edge''
       = Returns topology_default
   \<and> get_sentiment_multiplier None = Returns sentiment_default
   \<and> price_change_pct_of
        (final_predicted_of
           (forecast_of_indicators 100 (std_dev (simple_returns boundary_prices)) (1 / 50) 0)
           (apply_shock False topology_default) sentiment_default) 100 = 1
   \<and> map_option final_direction
        (returned (fst (predict failing_solver boundary_orchestrator [] first_clock
                          ''edge'' 100 None False)))
       = Some ''SIDEWAYS''"
proof -
  let ?q = "forecast_of_indicators 100 (std_dev (simple_returns boundary_prices)) (1 / 50) 0"
  have "\<exists>r. fuse ''edge'' 100 False (now_iso first_clock) ?q
               (apply_shock False topology_default) sentiment_default = Returns r"
    by (rule fuse_returns) (simp_all add: boundary_predicted)
  then obtain r
    where r: "fst (predict failing_solver boundary_orchestrator [] first_clock
                     ''edge'' 100 None False) = Returns r"
    by (auto simp: predict_on_empty compute_prediction_def boundary_forecast boundary_topology
          sentiment_none)
  from direction_boundary_is_sideways [OF empty_cache_miss boundary_forecast boundary_topology sentiment_none r refl]
    boundary_pct
  have "final_direction r = ''SIDEWAYS''" by simp
  with r show ?thesis
    by (simp add: empty_cache_miss boundary_forecast boundary_topology sentiment_none boundary_pct)
qed

lemma example_agents:
  "get_base_forecast (market_data example_orchestrator) ''tcs'' 100 = Returns (forecast_fallback 100)"
  "compute_laplacian_risk two_node_solver (topology example_orchestrator) ''tcs'' =
     Returns \<lparr> network_risk_penalty = 0.0228, risk_adjustment = 0.9772, centrality_score = 1,
       cluster_name = ''General'', cluster_risk = ''Moderate'',
       neighbor_signals = [\<lparr> ns_symbol = ''INFY'', ns_signal = ''bearish'', ns_risk_score = 0.5 \<rparr>],
       contagion_risk = 0.14 \<rparr>"
  by (simp_all add: example_orchestrator_def short_table_forecast example_topology)

theorem shock_scales_topology_risk_witness:
  "reachable two_node_solver example_orchestrator []
   \<and> map_option (\<lambda>r. ta_risk_adjustment (comp_topology_agent r))
        (returned (fst (predict two_node_solver example_orchestrator [] first_clock
                          ''tcs'' 100 None True))) = Some 0.87948
   \<and> map_option (\<lambda>r. ta_risk_adjustment (comp_topology_agent r))
        (returned (fst (predict two_node_solver example_orchestrator [] first_clock
                          ''tcs'' 100 None False))) = Some 0.9772
   \<and> map_option (\<lambda>r. ta_network_risk_penalty (comp_topology_agent r))
        (returned (fst (predict two_node_solver example_orchestrator [] first_clock
                          ''tcs'' 100 None True))) = Some 0.1228
   \<and> map_option (\<lambda>r. ta_network_risk_penalty (comp_topology_agent r))
        (returned (fst (predict two_node_solver example_orchestrator [] first_clock
                          ''tcs'' 100 None False))) = Some 0.0228"
proof -
  let ?t = "\<lparr> network_risk_penalty = 0.0228, risk_adjustment = 0.9772, centrality_score = 1,
       cluster_name = ''General'', cluster_risk = ''Moderate'',
       neighbor_signals = [\<lparr> ns_symbol = ''INFY'', ns_signal = ''bearish'', ns_risk_score = 0.5 \<rparr>],
       contagion_risk = 0.14 \<rparr>"
  have "\<exists>r. fuse ''tcs'' 100 shock (now_iso first_clock) (forecast_fallback 100)
               (apply_shock shock ?t) sentiment_default = Returns r" for shock
    by (rule fuse_returns) (simp_all add: forecast_fallback_def)
  then obtain r1 r0
    where f1: "fuse ''tcs'' 100 True (now_iso first_clock) (forecast_fallback 100)
               (apply_shock True ?t) sentiment_default = Returns r1"
      and f0: "fuse ''tcs'' 100 False (now_iso first_clock) (forecast_fallback 100)
               (apply_shock False ?t) sentiment_default = Returns r0"
    by metis
  have p1: "fst (predict two_node_solver example_orchestrator [] first_clock ''tcs'' 100 None True)
              = Returns r1"
    using f1 by (simp add: predict_on_empty compute_prediction_def example_agents sentiment_none)
  have p0: "fst (predict two_node_solver example_orchestrator [] first_clock ''tcs'' 100 None False)
              = Returns r0"
    using f0 by (simp add: predict_on_empty compute_prediction_def example_agents sentiment_none)
  have v0: "ta_risk_adjustment (comp_topology_agent r0) = 0.9772"
      "ta_network_risk_penalty (comp_topology_agent r0) = 0.0228"
    using fuse_fields(2,3) [OF f0] by (simp_all add: apply_shock_def)
  from shock_scales_topology_risk [OF reachable_empty reachable_empty p1 p0] v0
  have "ta_risk_adjustment (comp_topology_agent r1) = 0.87948"
      "ta_network_risk_penalty (comp_topology_agent r1) = 0.1228"
    by simp_all
  with v0 p1 p0 show ?thesis by (simp add: reachable_empty)
qed

end
